theory Spec2Isabelle
  imports Complex_Main "HOL-Library.AList"
begin

section \<open>JavaScript conventions used by the embedding\<close>

text \<open>
  Strings are \<^typ>\<open>string\<close>; an optional member of an object is an \<^typ>\<open>'a option\<close>
  (\<open>None\<close> is \<open>undefined\<close>). Numbers are rationals: the embedding has no NaN, no
  infinities and no rounding. A plain object or a \<open>Map\<close> whose iteration order matters is
  an association list in insertion order; assignment to a member is
  \<^const>\<open>AList.update\<close>, which overwrites in place or appends, as both do (an object
  lists keys that read as array indices first; no such keys are assumed). The members of
  \<open>task.input\<close> have the types that the capability schemas and the interfaces of the
  source give them. Each call reads the clock once: the timestamps it writes are equal.
\<close>

definition str_or :: "string option \<Rightarrow> string \<Rightarrow> string" where
  \<comment> \<open>\<open>a || d\<close> for a string: \<open>undefined\<close> and the empty string are falsy\<close>
  "str_or a d = (case a of None \<Rightarrow> d | Some s \<Rightarrow> if s = [] then d else s)"

definition num_or :: "rat option \<Rightarrow> rat \<Rightarrow> rat" where
  \<comment> \<open>\<open>a || d\<close> for a number: \<open>undefined\<close> and \<open>0\<close> are falsy\<close>
  "num_or a d = (case a of None \<Rightarrow> d | Some n \<Rightarrow> if n = 0 then d else n)"

definition int_or :: "int option \<Rightarrow> int \<Rightarrow> int" where
  "int_or a d = (case a of None \<Rightarrow> d | Some n \<Rightarrow> if n = 0 then d else n)"

definition arr_or :: "'a list option \<Rightarrow> 'a list \<Rightarrow> 'a list" where
  \<comment> \<open>\<open>a || d\<close> for an array: every array, also the empty one, is truthy\<close>
  "arr_or a d = (case a of None \<Rightarrow> d | Some xs \<Rightarrow> xs)"

definition truthy_str :: "string option \<Rightarrow> bool" where
  "truthy_str a = (case a of None \<Rightarrow> False | Some s \<Rightarrow> s \<noteq> [])"

definition js_key :: "string option \<Rightarrow> string" where
  \<comment> \<open>a value used as a property key or inside a template literal\<close>
  "js_key a = (case a of None \<Rightarrow> ''undefined'' | Some s \<Rightarrow> s)"

fun str_le :: "string \<Rightarrow> string \<Rightarrow> bool" where
  \<comment> \<open>\<open>a <= b\<close> on strings: lexicographic on the code units\<close>
  "str_le [] ys = True"
| "str_le (x # xs) [] = False"
| "str_le (x # xs) (y # ys) =
     (if x = y then str_le xs ys else (of_char x :: nat) < of_char y)"

definition starts_with :: "string \<Rightarrow> string \<Rightarrow> bool" where
  "starts_with p s = (take (length p) s = p)"

definition slice_last :: "nat \<Rightarrow> 'a list \<Rightarrow> 'a list" where
  \<comment> \<open>\<open>xs.slice(-n)\<close> for \<open>n > 0\<close>: the last \<open>n\<close> elements, all of them when there are fewer\<close>
  "slice_last n xs = drop (length xs - n) xs"

definition slice_to :: "int \<Rightarrow> 'a list \<Rightarrow> 'a list" where
  \<comment> \<open>\<open>xs.slice(0, k)\<close> for an integer \<open>k\<close>: a negative \<open>k\<close> counts from the end\<close>
  "slice_to k xs =
     (if 0 \<le> k then take (nat k) xs else take (length xs - nat (- k)) xs)"

datatype js_error = TypeError | RangeError | Rejected | IOError | StorageError

section \<open>Message envelope\<close>

datatype kind = Task_kind | Result_kind | Error_kind

datatype ('i, 'o) payload =
    TaskPayload string 'i
  | ResultPayload bool 'o
  | ErrorPayload string string bool

record ('i, 'o) message =
  msg_from :: string
  msg_to :: string
  msg_kind :: kind
  msg_payload :: "('i, 'o) payload"
  msg_id :: string
  correlationId :: "string option"

text \<open>
  Modelled from the spec: \<open>createMessage\<close> of \<open>core/message\<close>, which is not among the
  sources. It builds the envelope from its arguments with a freshly generated id; the
  generated id is the first argument here.
\<close>

definition createMessage ::
  "string \<Rightarrow> string \<Rightarrow> string \<Rightarrow> kind \<Rightarrow> ('i, 'o) payload \<Rightarrow> string option \<Rightarrow> ('i, 'o) message"
where
  "createMessage nid frm to k p corr =
     \<lparr>msg_from = frm, msg_to = to, msg_kind = k, msg_payload = p, msg_id = nid,
      correlationId = corr\<rparr>"

section \<open>Tagged memory store\<close>

record 'v entry =
  e_key :: string
  e_value :: "'v"
  e_agent :: string
  e_tags :: "string list"
  e_updatedAt :: string

type_synonym 'v memory = "'v entry list"

text \<open>
  Modelled from the spec: the \<open>Memory\<close> class of \<open>core/memory\<close>, which is not among the
  sources. A store is the sequence of its entries in insertion order, one per key;
  \<open>set\<close> upserts (an existing key is overwritten in place), \<open>get\<close> returns the value or
  nothing, \<open>search\<close> returns the entries whose key starts with the prefix and \<open>byAgent\<close>
  those last written by the agent. Each agent sees the store at the value type it casts
  the entries to.

  A write can fail: \<open>set\<close> then throws a StorageError, which the agents do not catch.
  \<open>memory_set\<close> is the effect of a write that succeeds. Whether the write of a key
  succeeds is a matter of the environment: a call that awaits writes is guarded by
  \<open>store_guard\<close>, which answers with the StorageError when the environment lets one of
  them fail. The store that a failed call leaves behind is not modelled.
\<close>

fun memory_set :: "string \<Rightarrow> string \<Rightarrow> 'v \<Rightarrow> string \<Rightarrow> string list \<Rightarrow> 'v memory \<Rightarrow> 'v memory" where
  "memory_set now k v a ts [] =
     [\<lparr>e_key = k, e_value = v, e_agent = a, e_tags = ts, e_updatedAt = now\<rparr>]"
| "memory_set now k v a ts (e # es) =
     (if e_key e = k
      then \<lparr>e_key = k, e_value = v, e_agent = a, e_tags = ts, e_updatedAt = now\<rparr> # es
      else e # memory_set now k v a ts es)"

fun memory_get :: "string \<Rightarrow> 'v memory \<Rightarrow> 'v option" where
  "memory_get k [] = None"
| "memory_get k (e # es) = (if e_key e = k then Some (e_value e) else memory_get k es)"

definition store_guard :: "(string \<Rightarrow> bool) \<Rightarrow> string list \<Rightarrow> 'a \<Rightarrow> js_error + 'a" where
  \<comment> \<open>the outcome of a call that writes the given keys and, if all writes succeed, has
      the given result\<close>
  "store_guard ok ks r = (if list_all ok ks then Inr r else Inl StorageError)"

definition memory_search :: "string \<Rightarrow> 'v memory \<Rightarrow> 'v entry list" where
  "memory_search p m = filter (\<lambda>e. starts_with p (e_key e)) m"

definition byAgent :: "string \<Rightarrow> 'v memory \<Rightarrow> 'v entry list" where
  "byAgent a m = filter (\<lambda>e. e_agent e = a) m"

section \<open>Analytics agent\<close>

text \<open>
  The numeric members of a per-platform metrics record are a finite map from the member's
  name; \<open>{...a, ...b}\<close> on such records is \<^term>\<open>a ++ b\<close>.
\<close>

datatype metric_name = Views | Likes | Shares | Comments | Clicks | Impressions | Engagement

record stats =
  nums :: "metric_name \<Rightarrow> rat option"
  updatedAt :: string

record ContentMetrics =
  cm_id :: string
  title :: string
  topic :: string
  createdAt :: string
  platforms :: "string list"
  metrics :: "(string \<times> stats) list"
  tags :: "string list"

text \<open>
  \<open>task.input\<close> of the analytics agent, with the members its four handlers read. The
  \<open>metric\<close> of \<open>top-content\<close> names one of the numeric members; \<open>limit\<close> is an integer;
  \<open>metrics\<close> holds the numeric members to record. Where \<open>track\<close> uses an absent
  \<open>contentId\<close> or \<open>platform\<close> as a property key or in a template literal, it reads
  \<open>undefined\<close>.
\<close>

record a_input =
  in_contentId :: "string option"
  in_platform :: "string option"
  in_metrics :: "metric_name \<Rightarrow> rat option"
  in_title :: "string option"
  in_topic :: "string option"
  in_tags :: "string list option"
  in_days :: "rat option"
  in_limit :: "int option"
  in_metric :: "metric_name option"

record top_item =
  ti_title :: string
  ti_topic :: string
  ti_platforms :: "string list"
  ti_score :: rat
  ti_metric :: metric_name

record report_out =
  r_days :: rat
  r_platform :: string
  contentCount :: nat
  totalViews :: rat
  totalLikes :: rat
  totalShares :: rat
  totalComments :: rat
  avgEngagement :: rat
  topPlatform :: string

text \<open>One constructor per template string that \<open>getInsights\<close> pushes.\<close>

datatype insight =
    NoContent
  | BestTopic string rat
  | BestPlatform string
  | TotalTracked nat
  | Tip

datatype a_output =
    Tracked string string
  | Report report_out
  | Insights "insight list"
  | TopContent "top_item list"

type_synonym a_message = "(a_input, a_output) message"

text \<open>
  Modelled from the spec: \<open>BaseAgent\<close> of \<open>core/agent\<close>, which is not among the sources,
  keeps the identity passed to its constructor, so \<open>this.name\<close> is the name given there.
\<close>

definition analytics_name :: string where
  "analytics_name = ''analytics''"

definition engagement_of :: "stats \<Rightarrow> stats" where
  \<comment> \<open>the engagement rate of \<open>track\<close>, set only when \<open>views\<close> is truthy and positive\<close>
  "engagement_of m =
     (case nums m Views of
        None \<Rightarrow> m
      | Some v \<Rightarrow>
          if v \<noteq> 0 \<and> v > 0
          then m\<lparr>nums := (nums m)(Engagement \<mapsto>
                 (num_or (nums m Likes) 0 + num_or (nums m Comments) 0
                  + num_or (nums m Shares) 0) / v * 100)\<rparr>
          else m)"

definition track_entry :: "string \<Rightarrow> a_input \<Rightarrow> ContentMetrics option \<Rightarrow> ContentMetrics" where
  \<comment> \<open>the stored entry that \<open>track\<close> writes back: \<open>existing\<close> after its three updates\<close>
  "track_entry now inp stored =
     (let contentId = js_key (in_contentId inp);
          platform = js_key (in_platform inp);
          existing = (case stored of
              Some e \<Rightarrow> e
            | None \<Rightarrow> \<lparr>cm_id = contentId, title = str_or (in_title inp) contentId,
                        topic = str_or (in_topic inp) [], createdAt = now, platforms = [],
                        metrics = [], tags = arr_or (in_tags inp) []\<rparr>);
          old = (case map_of (metrics existing) platform of
              None \<Rightarrow> Map.empty
            | Some s \<Rightarrow> nums s);
          m = engagement_of \<lparr>nums = old ++ in_metrics inp, updatedAt = now\<rparr>
      in existing\<lparr>metrics := AList.update platform m (metrics existing),
                  platforms := (if platform \<in> set (platforms existing)
                                then platforms existing
                                else platforms existing @ [platform])\<rparr>)"

definition track :: "string \<Rightarrow> string \<Rightarrow> a_message \<Rightarrow> a_input \<Rightarrow> ContentMetrics memory
    \<Rightarrow> a_message \<times> ContentMetrics memory" where
  "track nid now message inp mem =
     (let contentId = js_key (in_contentId inp);
          platform = js_key (in_platform inp);
          k = ''metrics:'' @ contentId;
          existing = track_entry now inp (memory_get k mem);
          mem' = memory_set now k existing analytics_name
                   (''metrics'' # platform # arr_or (in_tags inp) []) mem
      in (createMessage nid analytics_name (msg_from message) Result_kind
            (ResultPayload True (Tracked contentId platform)) (Some (msg_id message)),
          mem'))"

definition platform_views :: "ContentMetrics entry list \<Rightarrow> (string \<times> rat) list" where
  \<comment> \<open>the \<open>platformViews\<close> map of \<open>getTopPlatform\<close> after its two loops\<close>
  "platform_views es =
     foldl (\<lambda>pv (p, st).
              AList.update p (num_or (map_of pv p) 0 + num_or (nums st Views) 0) pv)
       [] (concat (map (\<lambda>e. metrics (e_value e)) es))"

definition getTopPlatform :: "ContentMetrics entry list \<Rightarrow> string" where
  \<comment> \<open>\<open>sort\<close> is stable; \<open>sorted[0]?.[0] || "none"\<close>\<close>
  "getTopPlatform es =
     (case sort_key (\<lambda>(p, v). - v) (platform_views es) of
        [] \<Rightarrow> ''none''
      | (p, v) # _ \<Rightarrow> if p = [] then ''none'' else p)"

text \<open>
  \<open>report\<close> reads the clock: \<open>cutoff days\<close> stands for
  \<open>new Date(Date.now() - days * 86400000).toISOString()\<close>, which throws a RangeError
  (\<open>None\<close>) when the date is out of range. The rounding of \<open>toFixed(2)\<close> and the
  rendering of numbers inside the output strings are not modelled: the report carries
  the numbers.
\<close>

definition report :: "string \<Rightarrow> (rat \<Rightarrow> string option) \<Rightarrow> a_message \<Rightarrow> a_input
    \<Rightarrow> ContentMetrics memory \<Rightarrow> js_error + a_message" where
  "report nid cutoff message inp mem =
     (let days = num_or (in_days inp) 30;
          platform = in_platform inp
      in case cutoff days of
           None \<Rightarrow> Inl RangeError
         | Some c \<Rightarrow>
             let allMetrics = filter (\<lambda>e. str_le c (createdAt (e_value e)))
                                (memory_search ''metrics:'' mem);
                 counted = filter (\<lambda>(p, st). \<not> (truthy_str platform \<and> Some p \<noteq> platform))
                             (concat (map (\<lambda>e. metrics (e_value e)) allMetrics));
                 tViews = foldl (\<lambda>t (p, st). t + num_or (nums st Views) 0) 0 counted;
                 tLikes = foldl (\<lambda>t (p, st). t + num_or (nums st Likes) 0) 0 counted;
                 tShares = foldl (\<lambda>t (p, st). t + num_or (nums st Shares) 0) 0 counted;
                 tComments = foldl (\<lambda>t (p, st). t + num_or (nums st Comments) 0) 0 counted
             in Inr (createMessage nid analytics_name (msg_from message) Result_kind
                  (ResultPayload True (Report
                     \<lparr>r_days = days, r_platform = str_or platform ''all'',
                      contentCount = length allMetrics, totalViews = tViews,
                      totalLikes = tLikes, totalShares = tShares, totalComments = tComments,
                      avgEngagement = (if tViews > 0
                                       then (tLikes + tComments + tShares) / tViews * 100
                                       else 0),
                      topPlatform = getTopPlatform allMetrics\<rparr>))
                  (Some (msg_id message))))"

record perf =
  p_views :: rat
  p_engagement :: rat
  p_count :: nat

definition add_stats :: "perf \<Rightarrow> stats list \<Rightarrow> perf" where
  "add_stats e sts =
     foldl (\<lambda>x st. x\<lparr>p_views := p_views x + num_or (nums st Views) 0,
                       p_engagement := p_engagement x + num_or (nums st Engagement) 0\<rparr>)
       e sts"

definition topicPerformance :: "ContentMetrics entry list \<Rightarrow> (string \<times> perf) list" where
  "topicPerformance es =
     foldl (\<lambda>tp e.
        let m = e_value e in
        if topic m = [] then tp
        else let existing = (case map_of tp (topic m) of
                   None \<Rightarrow> \<lparr>p_views = 0, p_engagement = 0, p_count = 0\<rparr>
                 | Some x \<Rightarrow> x);
                 existing' = add_stats existing (map snd (metrics m))
             in AList.update (topic m) (existing'\<lparr>p_count := p_count existing' + 1\<rparr>) tp)
       [] es"

definition platformStats :: "ContentMetrics entry list \<Rightarrow> (string \<times> perf) list" where
  "platformStats es =
     foldl (\<lambda>ps (p, st).
        let existing = (case map_of ps p of
                None \<Rightarrow> \<lparr>p_views = 0, p_engagement = 0, p_count = 0\<rparr>
              | Some x \<Rightarrow> x)
        in AList.update p (add_stats existing [st]) ps)
       [] (concat (map (\<lambda>e. metrics (e_value e)) es))"

definition getInsights :: "string \<Rightarrow> a_message \<Rightarrow> ContentMetrics memory \<Rightarrow> a_message" where
  "getInsights nid message mem =
     (let allMetrics = memory_search ''metrics:'' mem in
      if allMetrics = []
      then createMessage nid analytics_name (msg_from message) Result_kind
             (ResultPayload True (Insights [NoContent])) (Some (msg_id message))
      else
        let sortedTopics = sort_key (\<lambda>(t, x). - p_engagement x) (topicPerformance allMetrics);
            i1 = (case sortedTopics of [] \<Rightarrow> [] | (t, x) # _ \<Rightarrow> [BestTopic t (p_views x)]);
            i2 = (case sort_key (\<lambda>(p, x). - p_engagement x) (platformStats allMetrics) of
                    [] \<Rightarrow> []
                  | (p, x) # _ \<Rightarrow> [BestPlatform p])
        in createMessage nid analytics_name (msg_from message) Result_kind
             (ResultPayload True (Insights (i1 @ i2 @ [TotalTracked (length allMetrics), Tip])))
             (Some (msg_id message)))"

definition score_of :: "metric_name \<Rightarrow> ContentMetrics \<Rightarrow> rat" where
  \<comment> \<open>the \<open>score\<close> loop of \<open>topContent\<close> over \<open>Object.values(m.metrics)\<close>. The sum is
      exact here; the doubles of the source add exactly when the numbers are integers that
      stay within \<open>2^53\<close>, which is what the theorem on the ranking assumes\<close>
  "score_of metric m =
     foldl (\<lambda>score st. score + num_or (nums st metric) 0) 0 (map snd (metrics m))"

definition top_scored :: "a_input \<Rightarrow> ContentMetrics memory \<Rightarrow> (ContentMetrics \<times> rat) list" where
  \<comment> \<open>\<open>scored\<close>: mapped, sorted by descending score (stably) and sliced\<close>
  "top_scored inp mem =
     (let limit = int_or (in_limit inp) 5;
          metric = (case in_metric inp of None \<Rightarrow> Views | Some x \<Rightarrow> x);
          allMetrics = memory_search ''metrics:'' mem
      in slice_to limit
           (sort_key (\<lambda>(m, score). - score)
              (map (\<lambda>e. (e_value e, score_of metric (e_value e))) allMetrics)))"

definition topContent :: "string \<Rightarrow> a_message \<Rightarrow> a_input \<Rightarrow> ContentMetrics memory \<Rightarrow> a_message" where
  "topContent nid message inp mem =
     (let metric = (case in_metric inp of None \<Rightarrow> Views | Some x \<Rightarrow> x)
      in createMessage nid analytics_name (msg_from message) Result_kind
           (ResultPayload True (TopContent
              (map (\<lambda>(c, score). \<lparr>ti_title = title c, ti_topic = topic c,
                                    ti_platforms = platforms c, ti_score = score,
                                    ti_metric = metric\<rparr>)
                 (top_scored inp mem))))
           (Some (msg_id message)))"

text \<open>
  \<open>handle\<close> of the analytics agent. The environment is explicit: the id the new envelope
  gets, the clock's timestamp, the clock's cutoff and which store writes succeed. The
  result is the envelope and the store after the call. \<open>track\<close> above is the call whose
  write succeeds; \<open>handle\<close> answers with the StorageError otherwise. A message whose
  payload is not a task has no \<open>action\<close> and no \<open>input\<close>: it falls through the four
  comparisons to the error envelope.
\<close>

definition unknown_action :: "string \<Rightarrow> string \<Rightarrow> a_message \<Rightarrow> a_message" where
  "unknown_action nid act message =
     createMessage nid analytics_name (msg_from message) Error_kind
       (ErrorPayload ''UNKNOWN_ACTION'' (''Unknown: '' @ act) False) (Some (msg_id message))"

definition a_handle :: "string \<Rightarrow> string \<Rightarrow> (rat \<Rightarrow> string option) \<Rightarrow> (string \<Rightarrow> bool)
    \<Rightarrow> a_message \<Rightarrow> ContentMetrics memory
    \<Rightarrow> js_error + (a_message \<times> ContentMetrics memory)" where
  "a_handle nid now cutoff ok message mem =
     (case msg_payload message of
        TaskPayload act inp \<Rightarrow>
          if act = ''track''
          then store_guard ok [''metrics:'' @ js_key (in_contentId inp)]
                 (track nid now message inp mem)
          else if act = ''report'' then
            (case report nid cutoff message inp mem of
               Inl e \<Rightarrow> Inl e
             | Inr r \<Rightarrow> Inr (r, mem))
          else if act = ''insights'' then Inr (getInsights nid message mem, mem)
          else if act = ''top-content'' then Inr (topContent nid message inp mem, mem)
          else Inr (unknown_action nid act message, mem)
      | _ \<Rightarrow> Inr (unknown_action nid ''undefined'' message, mem))"

section \<open>Brand manager agent\<close>

record socialStyle =
  twitter :: string
  linkedin :: string
  instagram :: string

record BrandProfile =
  bp_name :: string
  bp_voice :: string
  bp_tone :: string
  bp_audience :: string
  bp_industry :: string
  bp_keywords :: "string list"
  bp_avoidWords :: "string list"
  bp_examples :: "string list"
  bp_socialStyle :: socialStyle
  bp_learnings :: "string list"

text \<open>The \<open>brand\<close> member of a tenant record (\<open>TenantConfig\<close>).\<close>

record brand =
  b_voice :: string
  b_tone :: string
  b_audience :: string
  b_industry :: string
  b_keywords :: "string list"
  b_avoidWords :: "string list"

text \<open>A parsed JSON value; an object keeps its members in order.\<close>

datatype json =
    JNull
  | JBool bool
  | JNum rat
  | JStr string
  | JArr "json list"
  | JObj "(string \<times> json) list"

record feedback_rec =
  f_feedback :: "string option"
  f_learning :: "json option"
  f_contentType :: string
  f_rating :: "rat option"

text \<open>
  What the brand manager and the tenant registry write into a tenant's store: strings
  under the shared scalar keys, a full profile under \<open>brand:<name>\<close> (the brand manager),
  a tenant's \<open>brand\<close> object under \<open>brand:<slug>\<close> (the registry) and a feedback record.
\<close>

datatype b_value =
    VStr string
  | VProfile BrandProfile
  | VBrand brand
  | VFeedback feedback_rec

record partial_style =
  ps_twitter :: "string option"
  ps_linkedin :: "string option"
  ps_instagram :: "string option"

record b_input =
  bi_name :: "string option"
  bi_brandName :: "string option"
  bi_voice :: "string option"
  bi_tone :: "string option"
  bi_audience :: "string option"
  bi_industry :: "string option"
  bi_keywords :: "string list option"
  bi_avoidWords :: "string list option"
  bi_examples :: "string list option"
  bi_socialStyle :: "partial_style option"
  bi_learnings :: "string list option"
  bi_feedback :: "string option"
  bi_contentType :: "string option"
  bi_rating :: "rat option"
  bi_sample :: "string option"

datatype b_output =
    Context BrandProfile string
  | Saved BrandProfile
  | Learned "json option" "json option"
  | Analysis json

type_synonym b_message = "(b_input, b_output) message"

record LLMMessage =
  role :: string
  content :: string

text \<open>
  The collaborators and built-ins the brand manager calls: the id of the new envelope, the
  clock (timestamp and \<open>Date.now()\<close> as text), the LLM client (\<open>None\<close> when \<open>chat\<close>
  rejects), \<open>JSON.parse\<close> on a text that starts with a brace (the members of the object,
  \<open>None\<close> when it throws), \<open>JSON.stringify\<close> on a social style, the rendering of a
  number in a template literal, and which store writes succeed.
\<close>

record b_env =
  env_nid :: string
  env_now :: string
  env_millis :: string
  chat :: "LLMMessage list \<Rightarrow> string option"
  json_parse :: "string \<Rightarrow> (string \<times> json) list option"
  stringify :: "socialStyle \<Rightarrow> string"
  show_num :: "rat \<Rightarrow> string"
  store_ok :: "string \<Rightarrow> bool"

text \<open>
  The state of the agent: its store, and the \<open>learnings\<close> array of the module constant
  \<open>DEFAULT_PROFILE\<close>, which \<open>getProfile\<close> hands out (a spread copies the reference) and
  \<open>learnFromFeedback\<close> pushes to. The store keeps values, not references.
\<close>

record bm_state =
  bm_memory :: "b_value memory"
  default_learnings :: "string list"

definition brand_manager_name :: string where
  "brand_manager_name = ''brand-manager''"

definition DEFAULT_PROFILE :: "string list \<Rightarrow> BrandProfile" where
  "DEFAULT_PROFILE dl =
     \<lparr>bp_name = ''default'', bp_voice = ''professional yet approachable'',
      bp_tone = ''authoritative but friendly'', bp_audience = ''general'',
      bp_industry = ''technology'', bp_keywords = [], bp_avoidWords = [], bp_examples = [],
      bp_socialStyle = \<lparr>twitter = ''engaging threads with hooks and data'',
                         linkedin = ''thought leadership with insights'',
                         instagram = ''visual-friendly with emojis''\<rparr>,
      bp_learnings = dl\<rparr>"

definition getProfile :: "bm_state \<Rightarrow> string \<Rightarrow> BrandProfile" where
  \<comment> \<open>\<open>{...DEFAULT_PROFILE, ...stored}\<close> when \<open>stored\<close> is truthy, by the kind of value stored\<close>
  "getProfile st name =
     (let d = DEFAULT_PROFILE (default_learnings st) in
      case memory_get (''brand:'' @ name) (bm_memory st) of
        None \<Rightarrow> d\<lparr>bp_name := name\<rparr>
      | Some (VProfile p) \<Rightarrow> p
      | Some (VBrand b) \<Rightarrow>
          d\<lparr>bp_voice := b_voice b, bp_tone := b_tone b, bp_audience := b_audience b,
            bp_industry := b_industry b, bp_keywords := b_keywords b,
            bp_avoidWords := b_avoidWords b\<rparr>
      | Some (VStr s) \<Rightarrow> if s = [] then d\<lparr>bp_name := name\<rparr> else d
      | Some (VFeedback f) \<Rightarrow> d)"

definition shares_default :: "bm_state \<Rightarrow> string \<Rightarrow> bool" where
  \<comment> \<open>whether the \<open>learnings\<close> of \<open>getProfile st name\<close> is the array of \<open>DEFAULT_PROFILE\<close>\<close>
  "shares_default st name =
     (case memory_get (''brand:'' @ name) (bm_memory st) of
        Some (VProfile p) \<Rightarrow> False
      | _ \<Rightarrow> True)"

function show_nat :: "nat \<Rightarrow> string" where
  "show_nat n =
     (if n < 10 then [char_of (48 + n)]
      else show_nat (n div 10) @ [char_of (48 + n mod 10)])"
  by pat_completeness auto
termination
  by (relation "measure id") auto

definition join :: "string \<Rightarrow> string list \<Rightarrow> string" where
  \<comment> \<open>\<open>xs.join(sep)\<close>\<close>
  "join sep xs = (case xs of [] \<Rightarrow> [] | y # ys \<Rightarrow> y @ concat (map (\<lambda>z. sep @ z) ys))"

definition nl :: string where
  "nl = [CHR 0x0A]"

definition buildGuidelines :: "BrandProfile \<Rightarrow> string" where
  "buildGuidelines profile =
     ''## Brand Writing Guidelines'' @ nl @ nl
     @ ''**Voice:** '' @ bp_voice profile @ nl
     @ ''**Tone:** '' @ bp_tone profile @ nl
     @ ''**Target Audience:** '' @ bp_audience profile @ nl
     @ ''**Industry:** '' @ bp_industry profile @ nl
     @ (if bp_keywords profile \<noteq> []
        then ''**Include these keywords when relevant:** ''
             @ join '', '' (bp_keywords profile) @ nl
        else [])
     @ (if bp_avoidWords profile \<noteq> []
        then ''**NEVER use these words:** '' @ join '', '' (bp_avoidWords profile) @ nl
        else [])
     @ (if bp_examples profile \<noteq> []
        then nl @ ''**Content examples the brand likes:**'' @ nl
             @ concat (map (\<lambda>(i, e). show_nat (i + 1) @ ''. '' @ [CHR 0x22] @ take 200 e
                                  @ ''...'' @ [CHR 0x22] @ nl)
                         (enumerate 0 (bp_examples profile)))
        else [])
     @ (if bp_learnings profile \<noteq> []
        then nl @ ''**Learned preferences (from past feedback):**'' @ nl
             @ concat (map (\<lambda>l. ''- '' @ l @ nl) (bp_learnings profile))
        else [])
     @ nl @ ''**Social Media Style:**'' @ nl
     @ ''- Twitter: '' @ twitter (bp_socialStyle profile) @ nl
     @ ''- LinkedIn: '' @ linkedin (bp_socialStyle profile) @ nl
     @ ''- Instagram: '' @ instagram (bp_socialStyle profile) @ nl"

definition getBrandContext :: "b_env \<Rightarrow> b_message \<Rightarrow> b_input \<Rightarrow> bm_state \<Rightarrow> b_message" where
  "getBrandContext env message inp st =
     (let brandName = str_or (bi_brandName inp) ''default'';
          profile = getProfile st brandName;
          guidelines = buildGuidelines profile
      in createMessage (env_nid env) brand_manager_name (msg_from message) Result_kind
           (ResultPayload True (Context profile guidelines)) (Some (msg_id message)))"

fun dedup :: "'a list \<Rightarrow> 'a list" where
  \<comment> \<open>\<open>[...new Set(xs)]\<close>: the first occurrence of each element, in order\<close>
  "dedup [] = []"
| "dedup (x # xs) = x # dedup (filter (\<lambda>y. y \<noteq> x) xs)"

definition ov :: "'a option \<Rightarrow> 'a \<Rightarrow> 'a" where
  \<comment> \<open>a member after \<open>{...existing, ...input}\<close>: the input's when it has one\<close>
  "ov a d = (case a of None \<Rightarrow> d | Some x \<Rightarrow> x)"

definition merge_style :: "socialStyle \<Rightarrow> partial_style option \<Rightarrow> socialStyle" where
  "merge_style e i =
     (case i of
        None \<Rightarrow> e
      | Some p \<Rightarrow> \<lparr>twitter = ov (ps_twitter p) (twitter e),
                   linkedin = ov (ps_linkedin p) (linkedin e),
                   instagram = ov (ps_instagram p) (instagram e)\<rparr>)"

definition merge_profile :: "BrandProfile \<Rightarrow> b_input \<Rightarrow> BrandProfile" where
  \<comment> \<open>the object literal \<open>updated\<close> of \<open>setBrand\<close>\<close>
  "merge_profile existing inp =
     \<lparr>bp_name = ov (bi_name inp) (bp_name existing),
      bp_voice = ov (bi_voice inp) (bp_voice existing),
      bp_tone = ov (bi_tone inp) (bp_tone existing),
      bp_audience = ov (bi_audience inp) (bp_audience existing),
      bp_industry = ov (bi_industry inp) (bp_industry existing),
      bp_keywords = dedup (bp_keywords existing @ arr_or (bi_keywords inp) []),
      bp_avoidWords = dedup (bp_avoidWords existing @ arr_or (bi_avoidWords inp) []),
      bp_examples = slice_last 10 (bp_examples existing @ arr_or (bi_examples inp) []),
      bp_socialStyle = merge_style (bp_socialStyle existing) (bi_socialStyle inp),
      bp_learnings = bp_learnings existing @ arr_or (bi_learnings inp) []\<rparr>"

definition setBrand :: "b_env \<Rightarrow> b_message \<Rightarrow> b_input \<Rightarrow> bm_state
    \<Rightarrow> js_error + (b_message \<times> bm_state)" where
  "setBrand env message inp st =
     (let brandName = str_or (bi_name inp) (str_or (bi_brandName inp) ''default'');
          existing = getProfile st brandName;
          updated = merge_profile existing inp;
          n = brand_manager_name;
          m1 = memory_set (env_now env) (''brand:'' @ brandName) (VProfile updated) n
                 [''brand'', brandName] (bm_memory st);
          m2 = memory_set (env_now env) ''brand_voice'' (VStr (bp_voice updated)) n [''brand''] m1;
          m3 = memory_set (env_now env) ''brand_tone'' (VStr (bp_tone updated)) n [''brand''] m2;
          m4 = memory_set (env_now env) ''brand_audience'' (VStr (bp_audience updated)) n
                 [''brand''] m3;
          m5 = memory_set (env_now env) ''social_tone''
                 (VStr (stringify env (bp_socialStyle updated))) n [''brand''] m4
      in store_guard (store_ok env)
           [''brand:'' @ brandName, ''brand_voice'', ''brand_tone'', ''brand_audience'',
            ''social_tone'']
           (createMessage (env_nid env) n (msg_from message) Result_kind
              (ResultPayload True (Saved updated)) (Some (msg_id message)),
            st\<lparr>bm_memory := m5\<rparr>))"

fun js_to_string :: "(rat \<Rightarrow> string) \<Rightarrow> json \<Rightarrow> string" where
  \<comment> \<open>a parsed value inside a template literal\<close>
  "js_to_string sn JNull = ''null''"
| "js_to_string sn (JBool b) = (if b then ''true'' else ''false'')"
| "js_to_string sn (JNum n) = sn n"
| "js_to_string sn (JStr s) = s"
| "js_to_string sn (JArr xs) =
     join '','' (map (\<lambda>x. if x = JNull then [] else js_to_string sn x) xs)"
| "js_to_string sn (JObj ms) = ''[object Object]''"

definition render :: "(rat \<Rightarrow> string) \<Rightarrow> json option \<Rightarrow> string" where
  "render sn v = (case v of None \<Rightarrow> ''undefined'' | Some j \<Rightarrow> js_to_string sn j)"

definition json_match :: "string \<Rightarrow> string option" where
  \<comment> \<open>\<open>s.match(/\{[\s\S]*\}/)\<close>: from the first opening brace to the last closing brace
      after it\<close>
  "json_match s =
     (let rest = dropWhile (\<lambda>c. c \<noteq> CHR ''{'') s;
          m = rev (dropWhile (\<lambda>c. c \<noteq> CHR ''}'') (rev rest))
      in if m = [] then None else Some m)"

text \<open>
  The two system prompts are constants of the source; only their first line is kept here.
\<close>

definition learn_prompt :: string where
  "learn_prompt =
     ''You are a brand learning system. Extract actionable writing rules from user feedback.''"

definition analyze_prompt :: string where
  "analyze_prompt =
     ''Analyze this content sample and extract the brand voice, tone, and style.''"

definition fallback_learning :: "string option \<Rightarrow> (string \<times> json) list" where
  \<comment> \<open>\<open>{ learning: feedback, applies_to: "all", priority: "medium" }\<close>\<close>
  "fallback_learning feedback =
     (case feedback of None \<Rightarrow> [] | Some f \<Rightarrow> [(''learning'', JStr f)])
     @ [(''applies_to'', JStr ''all''), (''priority'', JStr ''medium'')]"

definition extract_learning :: "b_env \<Rightarrow> string option \<Rightarrow> string \<Rightarrow> (string \<times> json) list" where
  \<comment> \<open>the \<open>try\<close> block of \<open>learnFromFeedback\<close>\<close>
  "extract_learning env feedback response =
     (case json_match response of
        None \<Rightarrow> fallback_learning feedback
      | Some m \<Rightarrow>
          (case json_parse env m of
             None \<Rightarrow> fallback_learning feedback
           | Some obj \<Rightarrow> obj))"

definition learn_messages :: "b_env \<Rightarrow> b_input \<Rightarrow> LLMMessage list" where
  \<comment> \<open>the \<open>messages\<close> that \<open>learnFromFeedback\<close> sends to the LLM client\<close>
  "learn_messages env inp =
     [\<lparr>role = ''system'', content = learn_prompt\<rparr>,
      \<lparr>role = ''user'',
       content = ''Feedback on '' @ str_or (bi_contentType inp) ''general'' @ '' content''
         @ (case bi_rating inp of
              None \<Rightarrow> []
            | Some r \<Rightarrow> if r = 0 then []
                       else '' (rating: '' @ show_num env r @ ''/5)'')
         @ '':'' @ nl @ [CHR 0x22] @ js_key (bi_feedback inp) @ [CHR 0x22]\<rparr>]"

definition learnFromFeedback :: "b_env \<Rightarrow> b_message \<Rightarrow> b_input \<Rightarrow> bm_state
    \<Rightarrow> js_error + (b_message \<times> bm_state)" where
  "learnFromFeedback env message inp st =
     (let feedback = bi_feedback inp;
          contentType = str_or (bi_contentType inp) ''general'';
          rating = bi_rating inp
      in case chat env (learn_messages env inp) of
           None \<Rightarrow> Inl Rejected
         | Some response \<Rightarrow>
             let learning = extract_learning env feedback response;
                 profile = getProfile st ''default'';
                 pushed = bp_learnings profile
                            @ [''['' @ render (show_num env) (map_of learning ''applies_to'')
                               @ ''] '' @ render (show_num env) (map_of learning ''learning'')];
                 dl = (if shares_default st ''default'' then pushed else default_learnings st);
                 profile' = profile\<lparr>bp_learnings :=
                              (if length pushed > 20 then slice_last 20 pushed else pushed)\<rparr>;
                 n = brand_manager_name;
                 m1 = memory_set (env_now env) ''brand:default'' (VProfile profile') n
                        [''brand'', ''learning''] (bm_memory st);
                 m2 = memory_set (env_now env) (''feedback:'' @ env_millis env)
                        (VFeedback \<lparr>f_feedback = feedback,
                                     f_learning = map_of learning ''learning'',
                                     f_contentType = contentType, f_rating = rating\<rparr>)
                        n [''feedback'', contentType] m1
             in store_guard (store_ok env) [''brand:default'', ''feedback:'' @ env_millis env]
                  (createMessage (env_nid env) n (msg_from message) Result_kind
                     (ResultPayload True
                        (Learned (map_of learning ''learning'') (map_of learning ''applies_to'')))
                     (Some (msg_id message)),
                   \<lparr>bm_memory = m2, default_learnings = dl\<rparr>))"

definition extract_analysis :: "b_env \<Rightarrow> string \<Rightarrow> json" where
  \<comment> \<open>the \<open>try\<close> block of \<open>analyzeSample\<close>\<close>
  "extract_analysis env response =
     (case json_match response of
        None \<Rightarrow> JObj [(''error'', JStr ''Could not parse'')]
      | Some m \<Rightarrow>
          (case json_parse env m of
             None \<Rightarrow> JObj [(''raw'', JStr response)]
           | Some obj \<Rightarrow> JObj obj))"

definition analyze_messages :: "b_input \<Rightarrow> LLMMessage list" where
  \<comment> \<open>the \<open>messages\<close> that \<open>analyzeSample\<close> sends to the LLM client\<close>
  "analyze_messages inp =
     [\<lparr>role = ''system'', content = analyze_prompt\<rparr>,
      \<lparr>role = ''user'',
       content = ''Analyze this content:'' @ nl @ nl @ js_key (bi_sample inp)\<rparr>]"

definition analyzeSample :: "b_env \<Rightarrow> b_message \<Rightarrow> b_input \<Rightarrow> js_error + b_message" where
  "analyzeSample env message inp =
     (case chat env (analyze_messages inp) of
        None \<Rightarrow> Inl Rejected
      | Some response \<Rightarrow>
          Inr (createMessage (env_nid env) brand_manager_name (msg_from message) Result_kind
                 (ResultPayload True (Analysis (extract_analysis env response)))
                 (Some (msg_id message))))"

text \<open>
  \<open>handle\<close> of the brand manager. A payload that is not a task has no \<open>action\<close>, so the
  call reaches \<open>getBrandContext\<close>, whose read of \<open>task.input.brandName\<close> throws.
\<close>

definition b_handle :: "b_env \<Rightarrow> b_message \<Rightarrow> bm_state \<Rightarrow> js_error + (b_message \<times> bm_state)" where
  "b_handle env message st =
     (case msg_payload message of
        TaskPayload act inp \<Rightarrow>
          if act = ''set-brand'' then setBrand env message inp st
          else if act = ''learn-from-feedback'' then learnFromFeedback env message inp st
          else if act = ''analyze-sample'' then
            (case analyzeSample env message inp of
               Inl e \<Rightarrow> Inl e
             | Inr r \<Rightarrow> Inr (r, st))
          else Inr (getBrandContext env message inp st, st)
      | _ \<Rightarrow> Inl TypeError)"

section \<open>Tenant registry\<close>

datatype platform = Wordpress | Twitter | Linkedin | Medium | Devto

datatype default_type = Blog_social | Blog | Social

type_synonym creds = "(string \<times> string) list"

record settings =
  defaultType :: default_type
  defaultModel :: "string option"
  autoPublish :: bool
  s_platforms :: "string list"

record TenantConfig =
  t_id :: string
  t_name :: string
  slug :: string
  t_brand :: brand
  t_platforms :: "(platform \<times> creds) list"
  t_settings :: settings
  t_createdAt :: string
  t_updatedAt :: string

text \<open>
  \<open>Partial<TenantConfig>\<close> as \<open>create\<close> (with its required \<open>name\<close>) and \<open>update\<close> read it.
  Both read the members of \<open>brand\<close> and \<open>settings\<close> one by one, so these are partial
  too.
\<close>

record partial_brand =
  pb_voice :: "string option"
  pb_tone :: "string option"
  pb_audience :: "string option"
  pb_industry :: "string option"
  pb_keywords :: "string list option"
  pb_avoidWords :: "string list option"

record partial_settings =
  pt_defaultType :: "default_type option"
  pt_defaultModel :: "string option"
  pt_autoPublish :: "bool option"
  pt_platforms :: "string list option"

record partial_config =
  c_name :: string
  c_slug :: "string option"
  c_brand :: "partial_brand option"
  c_platforms :: "(platform \<times> creds) list option"
  c_settings :: "partial_settings option"

record updates =
  u_name :: "string option"
  u_brand :: "partial_brand option"
  u_platforms :: "(platform \<times> creds) list option"
  u_settings :: "partial_settings option"

text \<open>
  Modelled from the spec: the \<open>Executor\<close> class of \<open>core/executor\<close>, which is not among
  the sources. Only its credential injection is specified: an executor is the credentials
  it holds, a new one holds none, and \<open>setCredential\<close> stores a value under a key.
\<close>

type_synonym Executor = "(string \<times> string) list"

definition setCredential :: "string \<Rightarrow> string \<Rightarrow> Executor \<Rightarrow> Executor" where
  "setCredential k v ex = AList.update k v ex"


text \<open>
  The environment of a registry call: the id that \<open>create\<close> generates, the clock, what
  \<open>new Memory(dir).init()\<close> finds at a directory (\<open>None\<close> when it throws), whether
  \<open>mkdir\<close> and \<open>writeFile\<close> succeed, and which writes to the tenant's store succeed. A
  call that throws returns the error; the state it leaves behind is not modelled.
\<close>

record tm_env =
  tm_nid :: string
  tm_now :: string
  mem_init :: "string \<Rightarrow> b_value memory option"
  mkdir_ok :: "string \<Rightarrow> bool"
  write_ok :: bool
  set_ok :: "string \<Rightarrow> bool"

record tm_state =
  tenants :: "(string \<times> TenantConfig) list"
  memories :: "(string \<times> b_value memory) list"
  executors :: "(string \<times> Executor) list"
  dataDir :: string

definition path_join :: "string list \<Rightarrow> string" where
  \<comment> \<open>\<open>path.join\<close>, without its normalisation\<close>
  "path_join ps = join ''/'' ps"

definition build_executor :: "(platform \<times> creds) list \<Rightarrow> Executor" where
  \<comment> \<open>the two nested loops of \<open>initTenantResources\<close> over a new executor\<close>
  "build_executor ps =
     foldl (\<lambda>ex (platform, cs). foldl (\<lambda>ex' (k, v). setCredential k v ex') ex cs) [] ps"

definition initTenantResources :: "tm_env \<Rightarrow> TenantConfig \<Rightarrow> tm_state \<Rightarrow> js_error + tm_state" where
  "initTenantResources env tenant st =
     (case mem_init env (path_join [dataDir st, t_id tenant, ''memory'']) of
        None \<Rightarrow> Inl IOError
      | Some mem \<Rightarrow>
          if mkdir_ok env (path_join [dataDir st, t_id tenant, ''output''])
          then Inr (st\<lparr>memories := AList.update (t_id tenant) mem (memories st),
                       executors := AList.update (t_id tenant)
                                      (build_executor (t_platforms tenant)) (executors st)\<rparr>)
          else Inl IOError)"

definition to_lower :: "char \<Rightarrow> char" where
  \<comment> \<open>\<open>toLowerCase\<close> on one ASCII character: only the capitals change. On a name with
      characters outside ASCII the built-in does more (it maps the Kelvin sign to \<open>k\<close>), so
      what is proved of derived slugs is proved for ASCII names\<close>
  "to_lower c =
     (let n = (of_char c :: nat) in if 65 \<le> n \<and> n \<le> 90 then char_of (n + 32) else c)"

definition alnum :: "char \<Rightarrow> bool" where
  \<comment> \<open>the character class \<open>[a-z0-9]\<close>\<close>
  "alnum c = (let n = (of_char c :: nat) in (97 \<le> n \<and> n \<le> 122) \<or> (48 \<le> n \<and> n \<le> 57))"

fun replace_runs :: "bool \<Rightarrow> string \<Rightarrow> string" where
  \<comment> \<open>\<open>s.replace(/[^a-z0-9]+/g, "-")\<close>; the flag says that a run is being skipped\<close>
  "replace_runs r [] = []"
| "replace_runs r (c # cs) =
     (if alnum c then c # replace_runs False cs
      else if r then replace_runs True cs
      else CHR ''-'' # replace_runs True cs)"

definition slugify :: "string \<Rightarrow> string" where
  "slugify name = replace_runs False (map to_lower name)"

definition pbrand :: "partial_config \<Rightarrow> partial_brand" where
  \<comment> \<open>\<open>config.brand?.x\<close> reads \<open>undefined\<close> when there is no \<open>brand\<close>\<close>
  "pbrand config =
     (case c_brand config of
        None \<Rightarrow> \<lparr>pb_voice = None, pb_tone = None, pb_audience = None, pb_industry = None,
                  pb_keywords = None, pb_avoidWords = None\<rparr>
      | Some b \<Rightarrow> b)"

definition psettings :: "partial_config \<Rightarrow> partial_settings" where
  "psettings config =
     (case c_settings config of
        None \<Rightarrow> \<lparr>pt_defaultType = None, pt_defaultModel = None, pt_autoPublish = None,
                  pt_platforms = None\<rparr>
      | Some x \<Rightarrow> x)"

definition new_tenant :: "string \<Rightarrow> string \<Rightarrow> string \<Rightarrow> partial_config \<Rightarrow> TenantConfig" where
  \<comment> \<open>the object literal \<open>tenant\<close> of \<open>create\<close>, for a configuration with the given name\<close>
  "new_tenant ident now name config =
     \<lparr>t_id = ident, t_name = name,
      slug = str_or (c_slug config) (slugify name),
      t_brand = \<lparr>b_voice = str_or (pb_voice (pbrand config)) ''professional yet approachable'',
                 b_tone = str_or (pb_tone (pbrand config)) ''authoritative but friendly'',
                 b_audience = str_or (pb_audience (pbrand config)) ''general'',
                 b_industry = str_or (pb_industry (pbrand config)) ''technology'',
                 b_keywords = arr_or (pb_keywords (pbrand config)) [],
                 b_avoidWords = arr_or (pb_avoidWords (pbrand config)) []\<rparr>,
      t_platforms = arr_or (c_platforms config) [],
      t_settings = \<lparr>defaultType = ov (pt_defaultType (psettings config)) Blog_social,
                    defaultModel = pt_defaultModel (psettings config),
                    autoPublish = ov (pt_autoPublish (psettings config)) False,
                    s_platforms = arr_or (pt_platforms (psettings config)) [''local-file'']\<rparr>,
      t_createdAt = now, t_updatedAt = now\<rparr>"

definition seed_brand :: "string \<Rightarrow> TenantConfig \<Rightarrow> b_value memory \<Rightarrow> b_value memory" where
  \<comment> \<open>the four \<open>mem.set\<close> calls of \<open>create\<close>\<close>
  "seed_brand now tenant mem =
     (let n = ''brand-manager'';
          m1 = memory_set now ''brand_voice'' (VStr (b_voice (t_brand tenant))) n [''brand''] mem;
          m2 = memory_set now ''brand_tone'' (VStr (b_tone (t_brand tenant))) n [''brand''] m1;
          m3 = memory_set now ''brand_audience'' (VStr (b_audience (t_brand tenant))) n
                 [''brand''] m2
      in memory_set now (''brand:'' @ slug tenant) (VBrand (t_brand tenant)) n [''brand''] m3)"

definition create :: "tm_env \<Rightarrow> partial_config \<Rightarrow> tm_state \<Rightarrow> js_error + (TenantConfig \<times> tm_state)" where
  "create env config st =
     (let tenant = new_tenant (tm_nid env) (tm_now env) (c_name config) config;
          st1 = st\<lparr>tenants := AList.update (t_id tenant) tenant (tenants st)\<rparr>
      in (case initTenantResources env tenant st1 of
            Inl e \<Rightarrow> Inl e
          | Inr st2 \<Rightarrow>
              (if \<not> write_ok env then Inl IOError
               else (case map_of (memories st2) (t_id tenant) of
                       None \<Rightarrow> Inl TypeError
                     | Some mem \<Rightarrow>
                         store_guard (set_ok env)
                           [''brand_voice'', ''brand_tone'', ''brand_audience'',
                            ''brand:'' @ slug tenant]
                           (tenant,
                            st2\<lparr>memories := AList.update (t_id tenant)
                                   (seed_brand (tm_now env) tenant mem) (memories st2)\<rparr>)))))"

definition get :: "string \<Rightarrow> tm_state \<Rightarrow> TenantConfig option" where
  "get ident st = map_of (tenants st) ident"

definition getMemory :: "string \<Rightarrow> tm_state \<Rightarrow> b_value memory option" where
  "getMemory ident st = map_of (memories st) ident"


definition spread :: "('k \<times> 'v) list \<Rightarrow> ('k \<times> 'v) list \<Rightarrow> ('k \<times> 'v) list" where
  \<comment> \<open>\<open>{...a, ...b}\<close> on objects with ordered members\<close>
  "spread a b = foldl (\<lambda>acc (k, v). AList.update k v acc) a b"

definition merge_brand :: "brand \<Rightarrow> partial_brand \<Rightarrow> brand" where
  "merge_brand b u =
     \<lparr>b_voice = ov (pb_voice u) (b_voice b), b_tone = ov (pb_tone u) (b_tone b),
      b_audience = ov (pb_audience u) (b_audience b),
      b_industry = ov (pb_industry u) (b_industry b),
      b_keywords = ov (pb_keywords u) (b_keywords b),
      b_avoidWords = ov (pb_avoidWords u) (b_avoidWords b)\<rparr>"

definition merge_settings :: "settings \<Rightarrow> partial_settings \<Rightarrow> settings" where
  "merge_settings s u =
     \<lparr>defaultType = ov (pt_defaultType u) (defaultType s),
      defaultModel = (case pt_defaultModel u of None \<Rightarrow> defaultModel s | Some x \<Rightarrow> Some x),
      autoPublish = ov (pt_autoPublish u) (autoPublish s),
      s_platforms = ov (pt_platforms u) (s_platforms s)\<rparr>"

definition update :: "tm_env \<Rightarrow> string \<Rightarrow> updates \<Rightarrow> tm_state
    \<Rightarrow> js_error + (TenantConfig option \<times> tm_state)" where
  "update env ident u st =
     (case map_of (tenants st) ident of
        None \<Rightarrow> Inr (None, st)
      | Some tenant \<Rightarrow>
          (let t1 = (case u_name u of
                       None \<Rightarrow> tenant
                     | Some n \<Rightarrow> if n = [] then tenant else tenant\<lparr>t_name := n\<rparr>);
               t2 = (case u_brand u of
                       None \<Rightarrow> t1
                     | Some b \<Rightarrow> t1\<lparr>t_brand := merge_brand (t_brand t1) b\<rparr>);
               t3 = (case u_platforms u of
                       None \<Rightarrow> t2
                     | Some ps \<Rightarrow> t2\<lparr>t_platforms := spread (t_platforms t2) ps\<rparr>);
               r = (case u_platforms u of
                      None \<Rightarrow> Inr st
                    | Some ps \<Rightarrow> initTenantResources env t3 st)
           in (case r of
                 Inl e \<Rightarrow> Inl e
               | Inr st1 \<Rightarrow>
                   (let t4 = (case u_settings u of
                                None \<Rightarrow> t3
                              | Some x \<Rightarrow> t3\<lparr>t_settings := merge_settings (t_settings t3) x\<rparr>);
                        t5 = t4\<lparr>t_updatedAt := tm_now env\<rparr>
                    in if write_ok env
                       then Inr (Some t5, st1\<lparr>tenants := AList.update ident t5 (tenants st1)\<rparr>)
                       else Inl IOError))))"

definition em_dash :: string where
  \<comment> \<open>the dash of the heading, as its UTF-8 bytes\<close>
  "em_dash = [CHR 0xE2, CHR 0x80, CHR 0x94]"

definition value_text :: "b_value \<Rightarrow> string" where
  \<comment> \<open>a stored value inside a template literal\<close>
  "value_text v = (case v of VStr s \<Rightarrow> s | _ \<Rightarrow> ''[object Object]'')"

definition brand_lines :: "TenantConfig \<Rightarrow> string" where
  \<comment> \<open>the part of the guidelines built before the store is read\<close>
  "brand_lines tenant =
     ''## Brand Writing Guidelines '' @ em_dash @ '' '' @ t_name tenant @ nl @ nl
     @ ''**Voice:** '' @ b_voice (t_brand tenant) @ nl
     @ ''**Tone:** '' @ b_tone (t_brand tenant) @ nl
     @ ''**Target Audience:** '' @ b_audience (t_brand tenant) @ nl
     @ ''**Industry:** '' @ b_industry (t_brand tenant) @ nl
     @ (if b_keywords (t_brand tenant) \<noteq> []
        then ''**Include keywords:** '' @ join '', '' (b_keywords (t_brand tenant)) @ nl
        else [])
     @ (if b_avoidWords (t_brand tenant) \<noteq> []
        then ''**NEVER use:** '' @ join '', '' (b_avoidWords (t_brand tenant)) @ nl
        else [])"

definition learned_lines :: "b_value entry list \<Rightarrow> string" where
  \<comment> \<open>the lines that the \<open>forEach\<close> of \<open>getBrandGuidelines\<close> appends\<close>
  "learned_lines ls =
     concat (map (\<lambda>l. ''- '' @ e_key l @ '': '' @ value_text (e_value l) @ nl) ls)"

definition getBrandGuidelines :: "string \<Rightarrow> tm_state \<Rightarrow> string" where
  "getBrandGuidelines tenantId st =
     (case map_of (tenants st) tenantId of
        None \<Rightarrow> []
      | Some tenant \<Rightarrow>
          brand_lines tenant
          @ (case map_of (memories st) tenantId of
               None \<Rightarrow> []
             | Some mem \<Rightarrow>
                 (let learnings = byAgent ''brand-manager'' mem
                  in if learnings \<noteq> []
                     then nl @ ''**Learned preferences:**'' @ nl
                          @ learned_lines (slice_last 10 learnings)
                     else [])))"

section \<open>Notions used by the statements\<close>

definition platforms_ok :: "ContentMetrics memory \<Rightarrow> bool" where
  \<comment> \<open>every stored entry lists each platform at most once\<close>
  "platforms_ok mem = list_all (\<lambda>e. distinct (platforms (e_value e))) mem"

fun track_all :: "(string \<times> string \<times> a_message \<times> a_input) list \<Rightarrow> ContentMetrics memory
    \<Rightarrow> ContentMetrics memory" where
  \<comment> \<open>the store after a sequence of \<open>track\<close> calls, each with its own environment\<close>
  "track_all [] mem = mem"
| "track_all ((nid, now, message, inp) # ops) mem =
     track_all ops (snd (track nid now message inp mem))"

definition top_limit :: "a_input \<Rightarrow> int" where
  \<comment> \<open>the limit in force in \<open>topContent\<close>: the supplied one unless it is absent or zero,
      then 5\<close>
  "top_limit inp = (case in_limit inp of None \<Rightarrow> 5 | Some l \<Rightarrow> if l = 0 then 5 else l)"


definition chosen_metric :: "a_input \<Rightarrow> metric_name" where
  \<comment> \<open>the metric that \<open>topContent\<close> ranks by: \<open>views\<close> unless one is supplied\<close>
  "chosen_metric inp = (case in_metric inp of None \<Rightarrow> Views | Some x \<Rightarrow> x)"

definition metric_sum :: "metric_name \<Rightarrow> ContentMetrics \<Rightarrow> rat" where
  \<comment> \<open>the sum of a metric over the per-platform records of an entry, an absent number
      counting as 0\<close>
  "metric_sum metric m =
     (\<Sum>(p, st) \<leftarrow> metrics m. case nums st metric of None \<Rightarrow> 0 | Some v \<Rightarrow> v)"

definition exact_metric :: "metric_name \<Rightarrow> ContentMetrics \<Rightarrow> bool" where
  \<comment> \<open>the numbers of the metric are integers whose absolute values add up to at most
      \<open>2^53\<close>: every partial sum is then a double and the additions of the source are exact\<close>
  "exact_metric metric m =
     (list_all (\<lambda>(p, st). case nums st metric of None \<Rightarrow> True | Some v \<Rightarrow> v \<in> \<int>) (metrics m)
      \<and> (\<Sum>(p, st) \<leftarrow> metrics m. case nums st metric of None \<Rightarrow> 0 | Some v \<Rightarrow> \<bar>v\<bar>) \<le> 2 ^ 53)"

definition exact_store :: "metric_name \<Rightarrow> ContentMetrics memory \<Rightarrow> bool" where
  \<comment> \<open>every entry that \<open>topContent\<close> scores has exact numbers\<close>
  "exact_store metric mem =
     list_all (\<lambda>e. exact_metric metric (e_value e)) (memory_search ''metrics:'' mem)"

definition item_of :: "metric_name \<Rightarrow> ContentMetrics entry \<Rightarrow> top_item" where
  \<comment> \<open>the item that \<open>topContent\<close> reports for a stored entry\<close>
  "item_of metric e =
     \<lparr>ti_title = title (e_value e), ti_topic = topic (e_value e),
      ti_platforms = platforms (e_value e), ti_score = metric_sum metric (e_value e),
      ti_metric = metric\<rparr>"

definition ascii :: "string \<Rightarrow> bool" where
  \<comment> \<open>every character is below 128: on such a string \<open>toLowerCase\<close> changes the
      capitals \<open>A\<close> to \<open>Z\<close> and nothing else\<close>
  "ascii s = list_all (\<lambda>c. (of_char c :: nat) < 128) s"

text \<open>
  The derivation of a slug in the words of the specification: every character of
  \<open>[a-z0-9]\<close> is kept, and every maximal run of other characters is replaced by a single
  dash. It is compared with \<open>replace_runs\<close>, which follows the source.
\<close>

function dash_runs :: "string \<Rightarrow> string" where
  "dash_runs [] = []"
| "dash_runs (c # cs) =
     (if alnum c then c # takeWhile alnum cs @ dash_runs (dropWhile alnum cs)
      else CHR ''-'' # dash_runs (dropWhile (\<lambda>x. \<not> alnum x) cs))"
  by pat_completeness auto
termination
  by (relation "measure length") (auto simp: less_Suc_eq_le length_dropWhile_le)

definition lines_text :: "string list \<Rightarrow> string" where
  \<comment> \<open>a document given by its lines, each ended by a line feed\<close>
  "lines_text ls = concat (map (\<lambda>l. l @ nl) ls)"

section \<open>Example inputs\<close>

text \<open>Concrete messages, environments and states at which the theorems are evaluated.\<close>

definition ex_a_input :: a_input where
  "ex_a_input =
     \<lparr>in_contentId = Some ''post1'', in_platform = Some ''twitter'',
      in_metrics = [Views \<mapsto> 100, Likes \<mapsto> 5], in_title = None, in_topic = Some ''ai'',
      in_tags = None, in_days = None, in_limit = Some 0, in_metric = None\<rparr>"

definition ex_a_task :: "string \<Rightarrow> a_message" where
  "ex_a_task act =
     \<lparr>msg_from = ''cli'', msg_to = ''analytics'', msg_kind = Task_kind,
      msg_payload = TaskPayload act ex_a_input, msg_id = ''task-1'', correlationId = None\<rparr>"

definition ex_b_input :: b_input where
  "ex_b_input =
     \<lparr>bi_name = None, bi_brandName = None, bi_voice = None, bi_tone = None,
      bi_audience = None, bi_industry = None, bi_keywords = None, bi_avoidWords = None,
      bi_examples = None, bi_socialStyle = None, bi_learnings = Some [''l21''],
      bi_feedback = Some ''Too formal'', bi_contentType = None, bi_rating = None,
      bi_sample = Some ''Hello world''\<rparr>"

definition ex_b_task :: "string \<Rightarrow> b_message" where
  "ex_b_task act =
     \<lparr>msg_from = ''cli'', msg_to = ''brand-manager'', msg_kind = Task_kind,
      msg_payload = TaskPayload act ex_b_input, msg_id = ''task-1'', correlationId = None\<rparr>"

definition ex_b_env :: "string \<Rightarrow> b_env" where
  \<comment> \<open>an environment whose LLM answers with the given text, whose \<open>JSON.parse\<close> throws and
      whose store writes succeed\<close>
  "ex_b_env response =
     \<lparr>env_nid = ''reply-1'', env_now = ''2024-01-01T00:00:00.000Z'',
      env_millis = ''1704067200000'', chat = (\<lambda>ms. Some response),
      json_parse = (\<lambda>s. None), stringify = (\<lambda>s. ''{}''), show_num = (\<lambda>r. ''0''),
      store_ok = (\<lambda>k. True)\<rparr>"


definition ex_bm_state :: bm_state where
  "ex_bm_state = \<lparr>bm_memory = [], default_learnings = []\<rparr>"

definition ex_metrics_store :: "ContentMetrics memory" where
  \<comment> \<open>the store after \<open>track\<close> ran once on the example task, from an empty store\<close>
  "ex_metrics_store =
     [\<lparr>e_key = ''metrics:post1'',
       e_value = \<lparr>cm_id = ''post1'', title = ''post1'', topic = ''ai'',
                  createdAt = ''2024-01-01T00:00:00.000Z'', platforms = [''twitter''],
                  metrics = [(''twitter'',
                     \<lparr>nums = [Views \<mapsto> 100, Likes \<mapsto> 5, Engagement \<mapsto> 5],
                      updatedAt = ''2024-01-01T00:00:00.000Z''\<rparr>)],
                  tags = []\<rparr>,
       e_agent = ''analytics'', e_tags = [''metrics'', ''twitter''],
       e_updatedAt = ''2024-01-01T00:00:00.000Z''\<rparr>]"

definition ex_profile20 :: BrandProfile where
  "ex_profile20 = (DEFAULT_PROFILE [])\<lparr>bp_learnings := replicate 20 ''[all] be brief''\<rparr>"

definition ex_bm_state20 :: bm_state where
  "ex_bm_state20 =
     \<lparr>bm_memory = [\<lparr>e_key = ''brand:default'', e_value = VProfile ex_profile20,
                     e_agent = ''brand-manager'', e_tags = [''brand'', ''learning''],
                     e_updatedAt = ''2024-01-01T00:00:00.000Z''\<rparr>],
      default_learnings = []\<rparr>"

definition ex_tm_env :: tm_env where
  "ex_tm_env =
     \<lparr>tm_nid = ''tenant_1704067200000_k3f9'', tm_now = ''2024-01-01T00:00:00.000Z'',
      mem_init = (\<lambda>dir. Some []), mkdir_ok = (\<lambda>dir. True), write_ok = True,
      set_ok = (\<lambda>k. True)\<rparr>"

definition ex_tm_empty :: tm_state where
  "ex_tm_empty = \<lparr>tenants = [], memories = [], executors = [], dataDir = ''data''\<rparr>"

definition ex_brand :: partial_brand where
  "ex_brand = \<lparr>pb_voice = Some [], pb_tone = Some ''dry'',
                pb_audience = Some ''developers'', pb_industry = Some ''software'',
                pb_keywords = Some [], pb_avoidWords = Some []\<rparr>"

definition ex_config :: partial_config where
  "ex_config = \<lparr>c_name = ''Acme'', c_slug = None, c_brand = Some ex_brand,
                 c_platforms = None, c_settings = None\<rparr>"

definition ex_tenant :: TenantConfig where
  "ex_tenant =
     \<lparr>t_id = ''t1'', t_name = ''Acme'', slug = ''acme'',
      t_brand = \<lparr>b_voice = ''professional yet approachable'',
                 b_tone = ''authoritative but friendly'', b_audience = ''general'',
                 b_industry = ''technology'', b_keywords = [''ai''], b_avoidWords = []\<rparr>,
      t_platforms = [(Wordpress, [(''url'', ''https://a.example'')]),
                     (Twitter, [(''token'', ''old'')])],
      t_settings = \<lparr>defaultType = Blog_social, defaultModel = None, autoPublish = False,
                    s_platforms = [''local-file'']\<rparr>,
      t_createdAt = ''2023-12-01T00:00:00.000Z'', t_updatedAt = ''2023-12-01T00:00:00.000Z''\<rparr>"

definition ex_tm_state :: tm_state where
  "ex_tm_state =
     \<lparr>tenants = [(''t1'', ex_tenant)],
      memories = [(''t1'', [\<lparr>e_key = ''brand_voice'',
                              e_value = VStr ''professional yet approachable'',
                              e_agent = ''brand-manager'', e_tags = [''brand''],
                              e_updatedAt = ''2023-12-01T00:00:00.000Z''\<rparr>])],
      executors = [(''t1'', [(''url'', ''https://a.example''), (''token'', ''old'')])],
      dataDir = ''data''\<rparr>"



definition ex_created :: TenantConfig where
  \<comment> \<open>the tenant that \<open>create\<close> builds from \<open>ex_config\<close> in \<open>ex_tm_env\<close>\<close>
  "ex_created =
     \<lparr>t_id = ''tenant_1704067200000_k3f9'', t_name = ''Acme'', slug = ''acme'',
      t_brand = \<lparr>b_voice = ''professional yet approachable'', b_tone = ''dry'',
                 b_audience = ''developers'', b_industry = ''software'', b_keywords = [],
                 b_avoidWords = []\<rparr>,
      t_platforms = [],
      t_settings = \<lparr>defaultType = Blog_social, defaultModel = None, autoPublish = False,
                    s_platforms = [''local-file'']\<rparr>,
      t_createdAt = ''2024-01-01T00:00:00.000Z'', t_updatedAt = ''2024-01-01T00:00:00.000Z''\<rparr>"

definition ex_two_store :: "ContentMetrics memory" where
  "ex_two_store =
     ex_metrics_store
     @ [\<lparr>e_key = ''metrics:post2'',
         e_value = \<lparr>cm_id = ''post2'', title = ''Second post'', topic = ''ml'',
                    createdAt = ''2024-01-02T00:00:00.000Z'', platforms = [''linkedin''],
                    metrics = [(''linkedin'',
                       \<lparr>nums = [Views \<mapsto> 250], updatedAt = ''2024-01-02T00:00:00.000Z''\<rparr>)],
                    tags = []\<rparr>,
         e_agent = ''analytics'', e_tags = [''metrics'', ''linkedin''],
         e_updatedAt = ''2024-01-02T00:00:00.000Z''\<rparr>]"

definition ex_top_task :: "int \<Rightarrow> a_message" where
  "ex_top_task l =
     \<lparr>msg_from = ''cli'', msg_to = ''analytics'', msg_kind = Task_kind,
      msg_payload = TaskPayload ''top-content'' (ex_a_input\<lparr>in_limit := Some l\<rparr>),
      msg_id = ''task-2'', correlationId = None\<rparr>"

definition ex_named :: partial_config where
  "ex_named = \<lparr>c_name = ''Acme & Sons, Inc.'', c_slug = None, c_brand = None,
                c_platforms = None, c_settings = None\<rparr>"

definition ex_writes :: "(string \<times> string) list" where
  \<comment> \<open>twelve writes of the brand manager, each a key and the time of the write; the last
      one writes the first key again\<close>
  "ex_writes =
     [(''k01'', ''01''), (''k02'', ''02''), (''k03'', ''03''), (''k04'', ''04''),
      (''k05'', ''05''), (''k06'', ''06''), (''k07'', ''07''), (''k08'', ''08''),
      (''k09'', ''09''), (''k10'', ''10''), (''k11'', ''11''), (''k01'', ''12'')]"

definition ex_learn_store :: "b_value memory" where
  "ex_learn_store =
     foldl (\<lambda>m (k, now). memory_set now k (VStr k) ''brand-manager'' [''brand''] m) [] ex_writes"

definition ex_learn_state :: tm_state where
  "ex_learn_state =
     \<lparr>tenants = [(''t1'', ex_tenant)], memories = [(''t1'', ex_learn_store)],
      executors = [], dataDir = ''data''\<rparr>"

section \<open>Unknown actions and correlation\<close>

lemma a_handle_envelope:
  "a_handle nid now cutoff ok am mem = Inr (ar, mem') \<Longrightarrow>
     correlationId ar = Some (msg_id am) \<and> msg_kind ar \<noteq> Task_kind"
  by (auto simp: a_handle_def store_guard_def track_def report_def getInsights_def topContent_def
      unknown_action_def createMessage_def Let_def
      split: payload.splits if_splits option.splits sum.splits)

lemma b_handle_envelope:
  "b_handle env bm st = Inr (br, st') \<Longrightarrow>
     correlationId br = Some (msg_id bm) \<and> msg_kind br \<noteq> Task_kind"
  by (auto simp: b_handle_def store_guard_def setBrand_def learnFromFeedback_def analyzeSample_def
      getBrandContext_def createMessage_def Let_def
      split: payload.splits if_splits option.splits sum.splits)




text \<open>
  Claim C2. Whatever message it is given, every envelope that the \<open>handle\<close> of the
  analytics agent or of the brand manager returns carries the id of that message as its
  \<open>correlationId\<close>, and is a result or an error.
\<close>

theorem handle_correlation:
  "(a_handle nid now cutoff ok am mem = Inr (ar, mem') \<longrightarrow>
      correlationId ar = Some (msg_id am) \<and> msg_kind ar \<noteq> Task_kind)
   \<and> (b_handle env bm st = Inr (br, st') \<longrightarrow>
      correlationId br = Some (msg_id bm) \<and> msg_kind br \<noteq> Task_kind)"
  using a_handle_envelope [of nid now cutoff ok am mem ar mem']
    b_handle_envelope [of env bm st br st']
  by blast

theorem handle_correlation_witness:
  "(\<exists>ar mem'. a_handle ''reply-1'' ''2024-01-01T00:00:00.000Z'' (\<lambda>d. None) (\<lambda>k. True) (ex_a_task ''track'') []
        = Inr (ar, mem')
      \<and> correlationId ar = Some ''task-1'' \<and> msg_kind ar \<noteq> Task_kind)
   \<and> (\<exists>br st'. b_handle (ex_b_env ''ok'') (ex_b_task ''set-brand'') ex_bm_state = Inr (br, st')
      \<and> correlationId br = Some ''task-1'' \<and> msg_kind br \<noteq> Task_kind)"
proof -
  obtain ar mem' where a: "a_handle ''reply-1'' ''2024-01-01T00:00:00.000Z'' (\<lambda>d. None)
      (\<lambda>k. True) (ex_a_task ''track'') [] = Inr (ar, mem')"
    by (simp add: a_handle_def store_guard_def ex_a_task_def) (metis prod.collapse)
  obtain br st' where b: "b_handle (ex_b_env ''ok'') (ex_b_task ''set-brand'') ex_bm_state
      = Inr (br, st')"
    by (simp add: b_handle_def setBrand_def store_guard_def ex_b_env_def ex_b_task_def Let_def)
  have ia: "msg_id (ex_a_task ''track'') = ''task-1''" by (simp add: ex_a_task_def)
  have ib: "msg_id (ex_b_task ''set-brand'') = ''task-1''" by (simp add: ex_b_task_def)
  from handle_correlation [of "''reply-1''" "''2024-01-01T00:00:00.000Z''" "\<lambda>d. None"
      "\<lambda>k. True" "ex_a_task ''track''" "[]" ar mem' "ex_b_env ''ok''" "ex_b_task ''set-brand''"
      ex_bm_state br st'] a b
  have "correlationId ar = Some (msg_id (ex_a_task ''track'')) \<and> msg_kind ar \<noteq> Task_kind"
    and "correlationId br = Some (msg_id (ex_b_task ''set-brand'')) \<and> msg_kind br \<noteq> Task_kind"
    by blast+
  with a b ia ib show ?thesis by metis
qed

section \<open>Analytics: tracked platforms\<close>

lemma memory_get_mem: "memory_get k mem = Some v \<Longrightarrow> \<exists>e \<in> set mem. e_value e = v \<and> e_key e = k"
  by (induction mem) (auto split: if_splits)

lemma memory_get_set: "memory_get k (memory_set now k v a ts mem) = Some v"
  by (induction mem) auto

lemma list_all_memory_set:
  "list_all P mem \<Longrightarrow>
   P \<lparr>e_key = k, e_value = v, e_agent = a, e_tags = ts, e_updatedAt = now\<rparr> \<Longrightarrow>
   list_all P (memory_set now k v a ts mem)"
  by (induction mem) auto

lemma track_entry_platforms:
  "platforms (track_entry now inp stored) =
     (let ps = (case stored of None \<Rightarrow> [] | Some e \<Rightarrow> platforms e);
          p = js_key (in_platform inp)
      in if p \<in> set ps then ps else ps @ [p])"
  by (simp add: track_entry_def Let_def split: option.splits)

lemma track_entry_distinct:
  "(case stored of None \<Rightarrow> True | Some e \<Rightarrow> distinct (platforms e)) \<Longrightarrow>
   distinct (platforms (track_entry now inp stored))"
  by (auto simp: track_entry_platforms Let_def split: option.splits)

lemma distinct_count_one: "distinct xs \<Longrightarrow> x \<in> set xs \<Longrightarrow> count_list xs x = 1"
  by (induction xs) auto

lemma track_entry_count:
  "(case stored of None \<Rightarrow> True | Some e \<Rightarrow> distinct (platforms e)) \<Longrightarrow>
   count_list (platforms (track_entry now inp stored)) (js_key (in_platform inp)) = 1"
  by (auto simp: track_entry_platforms Let_def distinct_count_one split: option.splits)

lemma track_entry_metrics:
  "\<exists>s. map_of (metrics (track_entry now inp stored)) (js_key (in_platform inp)) = Some s
       \<and> updatedAt s = now
       \<and> (\<forall>m v. in_metrics inp m = Some v \<and> m \<noteq> Engagement \<longrightarrow> nums s m = Some v)"
  by (auto simp: track_entry_def Let_def update_Some_unfold engagement_of_def map_add_def
      split: option.splits)

lemma stored_distinct:
  "platforms_ok mem \<Longrightarrow>
   (case memory_get k mem of None \<Rightarrow> True | Some e \<Rightarrow> distinct (platforms e))"
  by (auto simp: platforms_ok_def list_all_iff split: option.splits dest!: memory_get_mem)

lemma track_platforms_ok:
  "platforms_ok mem \<Longrightarrow> platforms_ok (snd (track nid now message inp mem))"
  using stored_distinct [of mem "''metrics:'' @ js_key (in_contentId inp)"]
  by (auto simp: track_def Let_def platforms_ok_def intro!: list_all_memory_set
      track_entry_distinct)

lemma track_all_platforms_ok:
  "platforms_ok mem \<Longrightarrow> platforms_ok (track_all ops mem)"
  by (induction ops mem rule: track_all.induct) (auto simp: track_platforms_ok)

lemma track_example:
  "snd (track ''reply-1'' ''2024-01-01T00:00:00.000Z'' (ex_a_task ''track'') ex_a_input [])
     = ex_metrics_store"
  by (simp add: track_def track_entry_def ex_a_input_def ex_metrics_store_def Let_def
      js_key_def str_or_def arr_or_def num_or_def engagement_of_def analytics_name_def
      fun_eq_iff)

text \<open>
  Claim C9. From a store in which every entry lists each platform at most once (the empty
  store is one), every sequence of \<open>track\<close> calls leaves such a store. After one call the
  entry of the tracked content lists the tracked platform exactly once, and that platform's
  metrics record carries the new timestamp and the supplied numbers.
\<close>

theorem track_platforms_duplicate_free:
  "platforms_ok mem \<longrightarrow>
     platforms_ok (track_all ops mem)
     \<and> (\<exists>e s. memory_get (''metrics:'' @ js_key (in_contentId inp))
                (snd (track nid now message inp mem)) = Some e
            \<and> count_list (platforms e) (js_key (in_platform inp)) = 1
            \<and> map_of (metrics e) (js_key (in_platform inp)) = Some s
            \<and> updatedAt s = now
            \<and> (\<forall>m v. in_metrics inp m = Some v \<and> m \<noteq> Engagement \<longrightarrow> nums s m = Some v))"
proof
  assume ok: "platforms_ok mem"
  let ?k = "''metrics:'' @ js_key (in_contentId inp)"
  let ?e = "track_entry now inp (memory_get ?k mem)"
  have g: "memory_get ?k (snd (track nid now message inp mem)) = Some ?e"
    by (simp add: track_def Let_def memory_get_set)
  have c: "count_list (platforms ?e) (js_key (in_platform inp)) = 1"
    using stored_distinct [OF ok] by (rule track_entry_count)
  from track_entry_metrics [of now inp "memory_get ?k mem"] g c
    track_all_platforms_ok [OF ok, of ops]
  show "platforms_ok (track_all ops mem) \<and>
     (\<exists>e s. memory_get ?k (snd (track nid now message inp mem)) = Some e
            \<and> count_list (platforms e) (js_key (in_platform inp)) = 1
            \<and> map_of (metrics e) (js_key (in_platform inp)) = Some s
            \<and> updatedAt s = now
            \<and> (\<forall>m v. in_metrics inp m = Some v \<and> m \<noteq> Engagement \<longrightarrow> nums s m = Some v))"
    by blast
qed

theorem track_platforms_duplicate_free_witness:
  "platforms_ok ex_metrics_store
   \<and> platforms_ok (track_all [(''reply-2'', ''2024-02-01T00:00:00.000Z'', ex_a_task ''track'', ex_a_input)]
        ex_metrics_store)
   \<and> (\<exists>e s. memory_get ''metrics:post1''
          (snd (track ''reply-2'' ''2024-02-01T00:00:00.000Z'' (ex_a_task ''track'') ex_a_input
                  ex_metrics_store)) = Some e
        \<and> count_list (platforms e) ''twitter'' = 1
        \<and> map_of (metrics e) ''twitter'' = Some s
        \<and> updatedAt s = ''2024-02-01T00:00:00.000Z'')"
proof -
  have ok: "platforms_ok ex_metrics_store"
    by (simp add: platforms_ok_def ex_metrics_store_def)
  have k: "js_key (in_contentId ex_a_input) = ''post1''" "js_key (in_platform ex_a_input) = ''twitter''"
    by (simp_all add: ex_a_input_def js_key_def)
  from track_platforms_duplicate_free [of ex_metrics_store
      "[(''reply-2'', ''2024-02-01T00:00:00.000Z'', ex_a_task ''track'', ex_a_input)]"
      ex_a_input "''reply-2''" "''2024-02-01T00:00:00.000Z''" "ex_a_task ''track''"] ok k
  show ?thesis by auto
qed

section \<open>Analytics: top content\<close>

lemma foldl_score:
  "foldl (\<lambda>score st. score + num_or (nums st metric) 0) a (map snd xs) =
     a + (\<Sum>(p, st) \<leftarrow> xs. case nums st metric of None \<Rightarrow> 0 | Some v \<Rightarrow> v)"
  by (induction xs arbitrary: a) (auto simp: num_or_def split: option.splits)

lemma score_of_sum:
  "score_of metric m =
     (\<Sum>(p, st) \<leftarrow> metrics m. case nums st metric of None \<Rightarrow> 0 | Some v \<Rightarrow> v)"
  by (simp add: score_of_def foldl_score)

lemma sorted_desc_sort_key:
  "sorted_wrt (\<lambda>a b. snd a \<ge> (snd b :: rat)) (sort_key (\<lambda>(m, score). - score) xs)"
proof -
  have "sorted (map (\<lambda>(m, score). - score) (sort_key (\<lambda>(m, score :: rat). - score) xs))"
    by (rule sorted_sort_key)
  then show ?thesis
    by (simp add: sorted_wrt_map case_prod_unfold)
qed

lemma score_of_metric_sum: "score_of metric m = metric_sum metric m"
  by (simp add: score_of_sum metric_sum_def)

lemma top_scored_ranking:
  "top_scored inp mem =
     slice_to (top_limit inp)
       (sort_key (\<lambda>(m, score). - score)
          (map (\<lambda>e. (e_value e, metric_sum (chosen_metric inp) (e_value e)))
             (memory_search ''metrics:'' mem)))"
  by (simp add: top_scored_def Let_def chosen_metric_def score_of_metric_sum top_limit_def
      int_or_def split: option.splits)

lemma stable_filter:
  "filter (\<lambda>y. snd y = (s :: rat)) (sort_key (\<lambda>(m, score). - score) xs)
     = filter (\<lambda>y. snd y = s) xs"
proof -
  have "filter (\<lambda>y. (\<lambda>(m, score). - score) y = - s) (sort_key (\<lambda>(m, score :: rat). - score) xs)
        = filter (\<lambda>y. (\<lambda>(m, score). - score) y = - s) xs"
    by (rule sort_key_stable)
  then show ?thesis by (simp add: case_prod_unfold)
qed

lemma top_two_example:
  "a_handle ''reply-2'' ''2024-03-01T00:00:00.000Z'' (\<lambda>d. None) (\<lambda>k. True) (ex_top_task (- 1))
     ex_two_store =
   Inr (\<lparr>msg_from = ''analytics'', msg_to = ''cli'', msg_kind = Result_kind,
         msg_payload = ResultPayload True (TopContent
           [\<lparr>ti_title = ''Second post'', ti_topic = ''ml'', ti_platforms = [''linkedin''],
             ti_score = 250, ti_metric = Views\<rparr>]),
         msg_id = ''reply-2'', correlationId = Some ''task-2''\<rparr>, ex_two_store)"
  by (simp add: a_handle_def ex_top_task_def ex_a_input_def ex_two_store_def
      ex_metrics_store_def topContent_def top_scored_def memory_search_def starts_with_def
      slice_to_def int_or_def score_of_def num_or_def createMessage_def analytics_name_def
      Let_def)

lemma exact_two_store: "exact_store Views ex_two_store"
  by (simp add: exact_store_def exact_metric_def ex_two_store_def ex_metrics_store_def
      memory_search_def starts_with_def)

text \<open>
  Claim C10, as amended. The numbers of the chosen metric are taken to be integers whose
  absolute values add up to at most \<open>2^53\<close> within each entry, so that the sums of the
  source are exact. A \<open>top-content\<close> task is then answered with a prefix of the ranking:
  the ranking holds one item for each entry found under the prefix \<open>metrics:\<close>, scored
  with the sum of the chosen metric (\<open>views\<close> when none is supplied, an absent number
  counting as 0) over the entry's per-platform records; it is ordered by non-increasing
  score, entries of equal score staying in the order of the store. The limit in force is
  5 when the limit is absent or zero; for a positive limit the answer is the first
  \<open>limit\<close> items of the ranking (all when there are fewer); for a negative limit \<open>-k\<close> it
  is the ranking without its last \<open>k\<close> items.
\<close>

theorem top_content_ranked:
  "msg_payload am = TaskPayload ''top-content'' inp
   \<and> exact_store (chosen_metric inp) mem
   \<longrightarrow>
     (\<exists>r items ranking.
        a_handle nid now cutoff ok am mem = Inr (r, mem)
        \<and> msg_payload r = ResultPayload True (TopContent items)
        \<and> length ranking = length (memory_search ''metrics:'' mem)
        \<and> sorted_wrt (\<lambda>a b. ti_score a \<ge> ti_score b) ranking
        \<and> (\<forall>s. filter (\<lambda>i. ti_score i = s) ranking
                = filter (\<lambda>i. ti_score i = s)
                    (map (item_of (chosen_metric inp)) (memory_search ''metrics:'' mem)))
        \<and> items = (if 0 < top_limit inp then take (nat (top_limit inp)) ranking
                    else take (length ranking - nat (- top_limit inp)) ranking)
        \<and> (0 < top_limit inp \<longrightarrow> int (length items) \<le> top_limit inp)
        \<and> sorted_wrt (\<lambda>a b. ti_score a \<ge> ti_score b) items
        \<and> (\<forall>it \<in> set items. \<exists>e \<in> set (memory_search ''metrics:'' mem).
              it = item_of (chosen_metric inp) e))"
proof
  assume h: "msg_payload am = TaskPayload ''top-content'' inp
      \<and> exact_store (chosen_metric inp) mem"
  let ?metric = "chosen_metric inp"
  let ?es = "memory_search ''metrics:'' mem"
  let ?scored = "map (\<lambda>e. (e_value e, metric_sum ?metric (e_value e))) ?es"
  let ?sorted = "sort_key (\<lambda>(m, score). - score) ?scored"
  let ?item = "\<lambda>(c, score). \<lparr>ti_title = title c, ti_topic = topic c,
      ti_platforms = platforms c, ti_score = score, ti_metric = ?metric\<rparr>"
  let ?ranking = "map ?item ?sorted"
  let ?items = "map ?item (top_scored inp mem)"
  let ?r = "topContent nid am inp mem"
  have hd: "a_handle nid now cutoff ok am mem = Inr (?r, mem)"
    using h by (simp add: a_handle_def)
  have pl: "msg_payload ?r = ResultPayload True (TopContent ?items)"
    by (simp add: topContent_def createMessage_def Let_def chosen_metric_def)
  have all: "map ?item ?scored = map (item_of ?metric) ?es"
    by (simp add: item_of_def)
  have sr: "sorted_wrt (\<lambda>a b. ti_score a \<ge> ti_score b) ?ranking"
    using sorted_desc_sort_key [of ?scored]
    by (simp add: sorted_wrt_map case_prod_unfold)
  have st: "filter (\<lambda>i. ti_score i = s) ?ranking
              = filter (\<lambda>i. ti_score i = s) (map (item_of ?metric) ?es)" for s
  proof -
    have "filter (\<lambda>i. ti_score i = s) ?ranking
            = map ?item (filter (\<lambda>y. snd y = s) ?sorted)"
      by (simp add: filter_map comp_def case_prod_unfold)
    also have "\<dots> = map ?item (filter (\<lambda>y. snd y = s) ?scored)"
      by (simp only: stable_filter)
    also have "\<dots> = filter (\<lambda>i. ti_score i = s) (map ?item ?scored)"
      by (simp add: filter_map comp_def case_prod_unfold)
    finally show ?thesis by (simp only: all)
  qed
  have lr: "length ?ranking = length ?es"
    by simp
  have tl: "top_limit inp \<noteq> 0"
    by (simp add: top_limit_def split: option.splits)
  have it: "?items = (if 0 < top_limit inp then take (nat (top_limit inp)) ?ranking
                    else take (length ?ranking - nat (- top_limit inp)) ?ranking)"
    using tl by (simp add: top_scored_ranking slice_to_def take_map)
  have l1: "0 < top_limit inp \<longrightarrow> int (length ?items) \<le> top_limit inp"
    by (auto simp: it)
  have si: "sorted_wrt (\<lambda>a b. ti_score a \<ge> ti_score b) ?items"
    using sr by (simp add: it)
  have m: "\<forall>it \<in> set ?items. \<exists>e \<in> set ?es. it = item_of ?metric e"
  proof
    fix x assume "x \<in> set ?items"
    then have "x \<in> set ?ranking"
      by (auto simp: it dest: in_set_takeD split: if_splits)
    then have "x \<in> set (map ?item ?scored)"
      by auto
    then show "\<exists>e \<in> set ?es. x = item_of ?metric e"
      unfolding all by auto
  qed
  from hd pl lr sr st it l1 si m
  show "\<exists>r items ranking.
        a_handle nid now cutoff ok am mem = Inr (r, mem)
        \<and> msg_payload r = ResultPayload True (TopContent items)
        \<and> length ranking = length (memory_search ''metrics:'' mem)
        \<and> sorted_wrt (\<lambda>a b. ti_score a \<ge> ti_score b) ranking
        \<and> (\<forall>s. filter (\<lambda>i. ti_score i = s) ranking
                = filter (\<lambda>i. ti_score i = s)
                    (map (item_of (chosen_metric inp)) (memory_search ''metrics:'' mem)))
        \<and> items = (if 0 < top_limit inp then take (nat (top_limit inp)) ranking
                    else take (length ranking - nat (- top_limit inp)) ranking)
        \<and> (0 < top_limit inp \<longrightarrow> int (length items) \<le> top_limit inp)
        \<and> sorted_wrt (\<lambda>a b. ti_score a \<ge> ti_score b) items
        \<and> (\<forall>it \<in> set items. \<exists>e \<in> set (memory_search ''metrics:'' mem).
              it = item_of (chosen_metric inp) e)"
    by blast
qed

theorem top_content_ranked_witness:
  "msg_payload (ex_top_task (- 1)) = TaskPayload ''top-content'' (ex_a_input\<lparr>in_limit := Some (- 1)\<rparr>)
   \<and> exact_store (chosen_metric (ex_a_input\<lparr>in_limit := Some (- 1)\<rparr>)) ex_two_store
   \<and> top_limit (ex_a_input\<lparr>in_limit := Some (- 1)\<rparr>) = - 1
   \<and> (\<exists>r items ranking.
        a_handle ''reply-2'' ''2024-03-01T00:00:00.000Z'' (\<lambda>d. None) (\<lambda>k. True)
          (ex_top_task (- 1)) ex_two_store = Inr (r, ex_two_store)
        \<and> msg_payload r = ResultPayload True (TopContent items)
        \<and> length ranking = 2
        \<and> sorted_wrt (\<lambda>a b. ti_score a \<ge> ti_score b) ranking
        \<and> items = take 1 ranking
        \<and> items = [\<lparr>ti_title = ''Second post'', ti_topic = ''ml'', ti_platforms = [''linkedin''],
                      ti_score = 250, ti_metric = Views\<rparr>])"
proof -
  let ?inp = "ex_a_input\<lparr>in_limit := Some (- 1)\<rparr>"
  have p: "msg_payload (ex_top_task (- 1)) = TaskPayload ''top-content'' ?inp"
    by (simp add: ex_top_task_def)
  have c: "chosen_metric ?inp = Views"
    by (simp add: chosen_metric_def ex_a_input_def)
  have x: "exact_store (chosen_metric ?inp) ex_two_store"
    by (simp only: c exact_two_store)
  have l: "top_limit ?inp = - 1"
    by (simp add: top_limit_def)
  have n: "length (memory_search ''metrics:'' ex_two_store) = 2"
    by (simp add: ex_two_store_def ex_metrics_store_def memory_search_def starts_with_def)
  from top_content_ranked [of "ex_top_task (- 1)" ?inp ex_two_store "''reply-2''"
      "''2024-03-01T00:00:00.000Z''" "\<lambda>d. None" "\<lambda>k. True"] p x
  obtain r items ranking where
    h: "a_handle ''reply-2'' ''2024-03-01T00:00:00.000Z'' (\<lambda>d. None) (\<lambda>k. True)
          (ex_top_task (- 1)) ex_two_store = Inr (r, ex_two_store)"
    and pl: "msg_payload r = ResultPayload True (TopContent items)"
    and lr: "length ranking = length (memory_search ''metrics:'' ex_two_store)"
    and sr: "sorted_wrt (\<lambda>a b. ti_score a \<ge> ti_score b) ranking"
    and it: "items = (if 0 < top_limit ?inp then take (nat (top_limit ?inp)) ranking
                    else take (length ranking - nat (- top_limit ?inp)) ranking)"
    by blast
  have lr2: "length ranking = 2"
    using lr n by simp
  have it1: "items = take 1 ranking"
    using it lr2 by (simp add: l)
  have ev: "items = [\<lparr>ti_title = ''Second post'', ti_topic = ''ml'', ti_platforms = [''linkedin''],
                      ti_score = 250, ti_metric = Views\<rparr>]"
    using h pl by (auto simp: top_two_example)
  from p x l h pl lr2 sr it1 ev show ?thesis by blast
qed

text \<open>
  The claim as stated fails for a supplied limit of 0: the limit in force is then 5, and a
  store with one entry yields one item.
\<close>

theorem top_content_limit_zero_counterexample:
  "in_limit ex_a_input = Some 0
   \<and> a_handle ''reply-1'' ''2024-03-01T00:00:00.000Z'' (\<lambda>d. None) (\<lambda>k. True) (ex_a_task ''top-content'')
       ex_metrics_store =
     Inr (\<lparr>msg_from = ''analytics'', msg_to = ''cli'', msg_kind = Result_kind,
           msg_payload = ResultPayload True (TopContent
             [\<lparr>ti_title = ''post1'', ti_topic = ''ai'', ti_platforms = [''twitter''],
               ti_score = 100, ti_metric = Views\<rparr>]),
           msg_id = ''reply-1'', correlationId = Some ''task-1''\<rparr>, ex_metrics_store)"
  by (simp add: a_handle_def ex_a_task_def ex_a_input_def ex_metrics_store_def topContent_def
      top_scored_def memory_search_def starts_with_def slice_to_def int_or_def score_of_def
      num_or_def createMessage_def analytics_name_def Let_def)

section \<open>Brand manager: merging a profile\<close>

lemma dedup_set: "set (dedup xs) = set xs"
  by (induction xs rule: dedup.induct) auto

lemma dedup_distinct: "distinct (dedup xs)"
  by (induction xs rule: dedup.induct) (auto simp: dedup_set)

lemma length_slice_last: "length (slice_last n xs) = min n (length xs)"
  by (auto simp: slice_last_def)

lemma slice_last_suffix: "\<exists>ys. xs = ys @ slice_last n xs"
  by (metis slice_last_def append_take_drop_id)

lemma set_brand_merges:
  "distinct (bp_keywords (merge_profile existing inp))
   \<and> set (bp_keywords (merge_profile existing inp))
       = set (bp_keywords existing) \<union> set (arr_or (bi_keywords inp) [])
   \<and> distinct (bp_avoidWords (merge_profile existing inp))
   \<and> set (bp_avoidWords (merge_profile existing inp))
       = set (bp_avoidWords existing) \<union> set (arr_or (bi_avoidWords inp) [])
   \<and> bp_examples (merge_profile existing inp)
       = slice_last 10 (bp_examples existing @ arr_or (bi_examples inp) [])
   \<and> length (bp_examples (merge_profile existing inp)) \<le> 10
   \<and> bp_learnings (merge_profile existing inp)
       = bp_learnings existing @ arr_or (bi_learnings inp) []"
  by (simp add: merge_profile_def dedup_set dedup_distinct length_slice_last)

lemma memory_get_set_if:
  "memory_get k (memory_set now k' v a ts mem) = (if k = k' then Some v else memory_get k mem)"
  by (induction mem) auto

lemma learn_from_feedback_stored:
  "learnFromFeedback env message inp st = Inr (r, st') \<Longrightarrow>
   \<exists>p. memory_get ''brand:default'' (bm_memory st') = Some (VProfile p)
      \<and> length (bp_learnings p) \<le> 20"
  by (auto simp: learnFromFeedback_def store_guard_def Let_def memory_get_set_if length_slice_last
      split: option.splits if_splits)

lemma learn_from_feedback_cap:
  "learnFromFeedback env message inp st = Inr (r, st') \<Longrightarrow>
   length (bp_learnings (getProfile st' ''default'')) \<le> 20"
  by (drule learn_from_feedback_stored) (auto simp: getProfile_def)

text \<open>
  Claim C5 at a failing input. \<open>setBrand\<close> appends the supplied learnings and keeps them
  all: with twenty learnings stored under \<open>brand:default\<close> and one more supplied, the
  profile it saves and returns has twenty-one. (The lemmas above cover the rest of the
  claim: keywords and avoidWords are united without duplicates, examples keep the last
  ten, and \<open>learnFromFeedback\<close> keeps the last twenty learnings.)
\<close>

theorem set_brand_learnings_uncapped:
  "\<exists>r st' p. b_handle (ex_b_env ''ok'') (ex_b_task ''set-brand'') ex_bm_state20 = Inr (r, st')
     \<and> msg_payload r = ResultPayload True (Saved p)
     \<and> memory_get ''brand:default'' (bm_memory st') = Some (VProfile p)
     \<and> length (bp_learnings p) = 21"
  by (simp add: b_handle_def ex_b_task_def ex_b_input_def ex_bm_state20_def ex_profile20_def
      ex_b_env_def store_guard_def setBrand_def getProfile_def merge_profile_def createMessage_def str_or_def arr_or_def
      memory_get_set_if Let_def)

section \<open>Brand manager: unparseable LLM output\<close>




section \<open>Tenant registry: creating a tenant\<close>

lemma slugify_acme: "slugify ''Acme'' = ''acme''"
  by code_simp

text \<open>A derived slug consists of \<open>[a-z0-9]\<close> and single dashes.\<close>

lemma replace_runs_chars:
  "c \<in> set (replace_runs r s) \<Longrightarrow> alnum c \<or> c = CHR ''-''"
  by (induction r s rule: replace_runs.induct) (auto split: if_splits)

lemma replace_runs_single_dash:
  "successively (\<lambda>a b. \<not> (a = CHR ''-'' \<and> b = CHR ''-'')) (replace_runs r s)
   \<and> (r \<longrightarrow> (case replace_runs r s of [] \<Rightarrow> True | c # _ \<Rightarrow> c \<noteq> CHR ''-''))"
proof (induction r s rule: replace_runs.induct)
  case (1 r)
  then show ?case by simp
next
  case (2 r c cs)
  have d: "\<not> alnum (CHR ''-'')" by (simp add: alnum_def)
  show ?case
  proof (cases "alnum c")
    case True
    with 2 d show ?thesis
      by (cases "replace_runs False cs") (auto simp: successively_Cons)
  next
    case False
    with 2 show ?thesis
      by (cases "replace_runs True cs") (auto simp: successively_Cons)
  qed
qed

lemma slugify_shape:
  "(\<forall>c \<in> set (slugify name). alnum c \<or> c = CHR ''-'')
   \<and> successively (\<lambda>a b. \<not> (a = CHR ''-'' \<and> b = CHR ''-'')) (slugify name)"
  using replace_runs_chars replace_runs_single_dash unfolding slugify_def by blast

lemma create_returns:
  "create env config st = Inr (t, st') \<Longrightarrow>
     t = new_tenant (tm_nid env) (tm_now env) (c_name config) config
     \<and> map_of (tenants st') (t_id t) = Some t"
  by (auto simp: create_def store_guard_def Let_def initTenantResources_def update_Some_unfold
      split: sum.splits option.splits if_splits)

lemma create_example:
  "\<exists>t st'. create ex_tm_env \<lparr>c_name = ''Acme'', c_slug = None, c_brand = None,
       c_platforms = None, c_settings = None\<rparr> ex_tm_empty = Inr (t, st')"
  by (simp add: create_def store_guard_def ex_tm_env_def ex_tm_empty_def initTenantResources_def Let_def
      new_tenant_def)

lemma replace_runs_skip:
  "replace_runs True cs = replace_runs False (dropWhile (\<lambda>x. \<not> alnum x) cs)"
  by (induction cs) auto

lemma replace_runs_keep:
  "replace_runs False cs = takeWhile alnum cs @ replace_runs False (dropWhile alnum cs)"
  by (induction cs) auto

lemma replace_runs_dash_runs: "replace_runs False s = dash_runs s"
proof (induction s rule: dash_runs.induct)
  case 1
  then show ?case by simp
next
  case (2 c cs)
  show ?case
  proof (cases "alnum c")
    case True
    with 2 show ?thesis
      using replace_runs_keep [of cs] by simp
  next
    case False
    with 2 show ?thesis
      by (simp add: replace_runs_skip)
  qed
qed

lemma replace_runs_filter:
  "filter alnum (replace_runs r s) = filter alnum s"
proof -
  have d: "\<not> alnum (CHR ''-'')" by (simp add: alnum_def)
  show ?thesis
    by (induction r s rule: replace_runs.induct) (auto simp: d)
qed

lemma create_named_example:
  "\<exists>u st''. create ex_tm_env ex_named ex_tm_empty = Inr (u, st'')"
  by (simp add: create_def store_guard_def ex_tm_env_def ex_tm_empty_def
      initTenantResources_def Let_def new_tenant_def)

lemma dash_runs_named: "dash_runs (map to_lower ''Acme & Sons, Inc.'') = ''acme-sons-inc-''"
  by code_simp

lemma ascii_named: "ascii ''Acme & Sons, Inc.''"
  by code_simp

text \<open>
  Claim C3. Whenever \<open>create\<close> returns for the configuration \<open>{name: "Acme"}\<close>, the
  tenant it returns has the slug \<open>acme\<close>, the default brand voice and the settings
  platforms \<open>["local-file"]\<close>. In general, when no slug is supplied (or an empty one)
  and the name consists of ASCII characters, the slug of the returned tenant is the
  lower-cased name with every maximal run of characters outside \<open>[a-z0-9]\<close> replaced by a
  single dash: the characters of \<open>[a-z0-9]\<close> of the lower-cased name are kept, in their
  order, every other character of the slug is a dash, and no two dashes are adjacent.
  \<open>create\<close> does return when the store opens and the files can be written.
\<close>

theorem create_acme:
  "(create env \<lparr>c_name = ''Acme'', c_slug = None, c_brand = None, c_platforms = None,
                 c_settings = None\<rparr> st = Inr (t, st') \<longrightarrow>
      slug t = ''acme''
      \<and> b_voice (t_brand t) = ''professional yet approachable''
      \<and> s_platforms (t_settings t) = [''local-file''])
   \<and> (create env config st = Inr (u, st'') \<and> c_slug config \<in> {None, Some []}
       \<and> ascii (c_name config) \<longrightarrow>
      slug u = dash_runs (map to_lower (c_name config))
      \<and> filter alnum (slug u) = filter alnum (map to_lower (c_name config))
      \<and> (\<forall>c \<in> set (slug u). alnum c \<or> c = CHR ''-'')
      \<and> successively (\<lambda>a b. \<not> (a = CHR ''-'' \<and> b = CHR ''-'')) (slug u))"
proof (rule conjI; rule impI)
  assume "create env \<lparr>c_name = ''Acme'', c_slug = None, c_brand = None, c_platforms = None,
                c_settings = None\<rparr> st = Inr (t, st')"
  from create_returns [OF this]
  show "slug t = ''acme'' \<and> b_voice (t_brand t) = ''professional yet approachable''
     \<and> s_platforms (t_settings t) = [''local-file'']"
    by (simp add: new_tenant_def str_or_def arr_or_def pbrand_def psettings_def slugify_acme)
next
  assume h: "create env config st = Inr (u, st'') \<and> c_slug config \<in> {None, Some []}
       \<and> ascii (c_name config)"
  then have u: "u = new_tenant (tm_nid env) (tm_now env) (c_name config) config"
    using create_returns by blast
  from h have s: "slug u = slugify (c_name config)"
    by (auto simp: u new_tenant_def str_or_def)
  show "slug u = dash_runs (map to_lower (c_name config))
      \<and> filter alnum (slug u) = filter alnum (map to_lower (c_name config))
      \<and> (\<forall>c \<in> set (slug u). alnum c \<or> c = CHR ''-'')
      \<and> successively (\<lambda>a b. \<not> (a = CHR ''-'' \<and> b = CHR ''-'')) (slug u)"
    using slugify_shape [of "c_name config"]
    by (simp add: s) (simp add: slugify_def replace_runs_dash_runs [symmetric] replace_runs_filter)
qed

theorem create_acme_witness:
  "(\<exists>t st'. create ex_tm_env \<lparr>c_name = ''Acme'', c_slug = None, c_brand = None,
       c_platforms = None, c_settings = None\<rparr> ex_tm_empty = Inr (t, st')
     \<and> slug t = ''acme''
     \<and> b_voice (t_brand t) = ''professional yet approachable''
     \<and> s_platforms (t_settings t) = [''local-file''])
   \<and> c_slug ex_named \<in> {None, Some []} \<and> ascii (c_name ex_named)
   \<and> (\<exists>u st''. create ex_tm_env ex_named ex_tm_empty = Inr (u, st'')
     \<and> slug u = dash_runs (map to_lower ''Acme & Sons, Inc.'')
     \<and> slug u = ''acme-sons-inc-'')"
proof -
  from create_example obtain t st' where
    a: "create ex_tm_env \<lparr>c_name = ''Acme'', c_slug = None, c_brand = None,
       c_platforms = None, c_settings = None\<rparr> ex_tm_empty = Inr (t, st')" by blast
  from create_named_example obtain u st'' where
    b: "create ex_tm_env ex_named ex_tm_empty = Inr (u, st'')" by blast
  have h: "c_slug ex_named \<in> {None, Some []}" "ascii (c_name ex_named)"
    by (simp_all add: ex_named_def ascii_named)
  have n: "c_name ex_named = ''Acme & Sons, Inc.''"
    by (simp add: ex_named_def)
  from create_acme [of ex_tm_env ex_tm_empty t st' ex_named u st''] a b h
  have r: "slug t = ''acme'' \<and> b_voice (t_brand t) = ''professional yet approachable''
      \<and> s_platforms (t_settings t) = [''local-file'']"
    and d: "slug u = dash_runs (map to_lower (c_name ex_named))"
    by blast+
  from d have d1: "slug u = dash_runs (map to_lower ''Acme & Sons, Inc.'')"
    by (simp only: n)
  then have d2: "slug u = ''acme-sons-inc-''"
    by (simp only: dash_runs_named)
  from a b h r d1 d2 show ?thesis by blast
qed

lemma create_ex_config:
  "\<exists>t st'. create ex_tm_env ex_config ex_tm_empty = Inr (t, st')"
  by (simp add: create_def store_guard_def ex_tm_env_def ex_tm_empty_def initTenantResources_def Let_def
      new_tenant_def)

text \<open>
  Claim C4, as amended. Whenever \<open>create\<close> returns a tenant, \<open>get\<close> of its id returns that
  tenant. Its brand keeps every supplied non-empty voice, tone, audience and industry and
  every supplied list of keywords and avoidWords; its settings keep every supplied member.
  An unset member takes its default, and so does a voice, tone, audience or industry
  supplied as the empty string; \<open>defaultModel\<close> has no default and stays unset.
\<close>

theorem create_get_roundtrip:
  "create env config st = Inr (t, st') \<longrightarrow>
     get (t_id t) st' = Some t
     \<and> (\<forall>s. s \<noteq> [] \<longrightarrow>
           (pb_voice (pbrand config) = Some s \<longrightarrow> b_voice (t_brand t) = s)
           \<and> (pb_tone (pbrand config) = Some s \<longrightarrow> b_tone (t_brand t) = s)
           \<and> (pb_audience (pbrand config) = Some s \<longrightarrow> b_audience (t_brand t) = s)
           \<and> (pb_industry (pbrand config) = Some s \<longrightarrow> b_industry (t_brand t) = s))
     \<and> (pb_voice (pbrand config) \<in> {None, Some []} \<longrightarrow>
           b_voice (t_brand t) = ''professional yet approachable'')
     \<and> (pb_tone (pbrand config) \<in> {None, Some []} \<longrightarrow>
           b_tone (t_brand t) = ''authoritative but friendly'')
     \<and> (pb_audience (pbrand config) \<in> {None, Some []} \<longrightarrow>
           b_audience (t_brand t) = ''general'')
     \<and> (pb_industry (pbrand config) \<in> {None, Some []} \<longrightarrow>
           b_industry (t_brand t) = ''technology'')
     \<and> b_keywords (t_brand t)
         = (case pb_keywords (pbrand config) of None \<Rightarrow> [] | Some ks \<Rightarrow> ks)
     \<and> b_avoidWords (t_brand t)
         = (case pb_avoidWords (pbrand config) of None \<Rightarrow> [] | Some ws \<Rightarrow> ws)
     \<and> defaultType (t_settings t)
         = (case pt_defaultType (psettings config) of None \<Rightarrow> Blog_social | Some d \<Rightarrow> d)
     \<and> defaultModel (t_settings t) = pt_defaultModel (psettings config)
     \<and> autoPublish (t_settings t)
         = (case pt_autoPublish (psettings config) of None \<Rightarrow> False | Some a \<Rightarrow> a)
     \<and> s_platforms (t_settings t)
         = (case pt_platforms (psettings config) of None \<Rightarrow> [''local-file''] | Some ps \<Rightarrow> ps)"
proof
  assume "create env config st = Inr (t, st')"
  from create_returns [OF this]
  have t: "t = new_tenant (tm_nid env) (tm_now env) (c_name config) config"
    and g: "get (t_id t) st' = Some t"
    unfolding get_def by blast+
  have b: "(\<forall>s. s \<noteq> [] \<longrightarrow>
           (pb_voice (pbrand config) = Some s \<longrightarrow> b_voice (t_brand t) = s)
           \<and> (pb_tone (pbrand config) = Some s \<longrightarrow> b_tone (t_brand t) = s)
           \<and> (pb_audience (pbrand config) = Some s \<longrightarrow> b_audience (t_brand t) = s)
           \<and> (pb_industry (pbrand config) = Some s \<longrightarrow> b_industry (t_brand t) = s))"
    by (simp add: t new_tenant_def str_or_def)
  have d: "(pb_voice (pbrand config) \<in> {None, Some []} \<longrightarrow>
           b_voice (t_brand t) = ''professional yet approachable'')
     \<and> (pb_tone (pbrand config) \<in> {None, Some []} \<longrightarrow>
           b_tone (t_brand t) = ''authoritative but friendly'')
     \<and> (pb_audience (pbrand config) \<in> {None, Some []} \<longrightarrow>
           b_audience (t_brand t) = ''general'')
     \<and> (pb_industry (pbrand config) \<in> {None, Some []} \<longrightarrow>
           b_industry (t_brand t) = ''technology'')"
    by (auto simp: t new_tenant_def str_or_def)
  have r: "b_keywords (t_brand t)
         = (case pb_keywords (pbrand config) of None \<Rightarrow> [] | Some ks \<Rightarrow> ks)
     \<and> b_avoidWords (t_brand t)
         = (case pb_avoidWords (pbrand config) of None \<Rightarrow> [] | Some ws \<Rightarrow> ws)
     \<and> defaultType (t_settings t)
         = (case pt_defaultType (psettings config) of None \<Rightarrow> Blog_social | Some d \<Rightarrow> d)
     \<and> defaultModel (t_settings t) = pt_defaultModel (psettings config)
     \<and> autoPublish (t_settings t)
         = (case pt_autoPublish (psettings config) of None \<Rightarrow> False | Some a \<Rightarrow> a)
     \<and> s_platforms (t_settings t)
         = (case pt_platforms (psettings config) of None \<Rightarrow> [''local-file''] | Some ps \<Rightarrow> ps)"
    by (simp add: t new_tenant_def arr_or_def ov_def)
  from g b d r show "get (t_id t) st' = Some t
     \<and> (\<forall>s. s \<noteq> [] \<longrightarrow>
           (pb_voice (pbrand config) = Some s \<longrightarrow> b_voice (t_brand t) = s)
           \<and> (pb_tone (pbrand config) = Some s \<longrightarrow> b_tone (t_brand t) = s)
           \<and> (pb_audience (pbrand config) = Some s \<longrightarrow> b_audience (t_brand t) = s)
           \<and> (pb_industry (pbrand config) = Some s \<longrightarrow> b_industry (t_brand t) = s))
     \<and> (pb_voice (pbrand config) \<in> {None, Some []} \<longrightarrow>
           b_voice (t_brand t) = ''professional yet approachable'')
     \<and> (pb_tone (pbrand config) \<in> {None, Some []} \<longrightarrow>
           b_tone (t_brand t) = ''authoritative but friendly'')
     \<and> (pb_audience (pbrand config) \<in> {None, Some []} \<longrightarrow>
           b_audience (t_brand t) = ''general'')
     \<and> (pb_industry (pbrand config) \<in> {None, Some []} \<longrightarrow>
           b_industry (t_brand t) = ''technology'')
     \<and> b_keywords (t_brand t)
         = (case pb_keywords (pbrand config) of None \<Rightarrow> [] | Some ks \<Rightarrow> ks)
     \<and> b_avoidWords (t_brand t)
         = (case pb_avoidWords (pbrand config) of None \<Rightarrow> [] | Some ws \<Rightarrow> ws)
     \<and> defaultType (t_settings t)
         = (case pt_defaultType (psettings config) of None \<Rightarrow> Blog_social | Some d \<Rightarrow> d)
     \<and> defaultModel (t_settings t) = pt_defaultModel (psettings config)
     \<and> autoPublish (t_settings t)
         = (case pt_autoPublish (psettings config) of None \<Rightarrow> False | Some a \<Rightarrow> a)
     \<and> s_platforms (t_settings t)
         = (case pt_platforms (psettings config) of None \<Rightarrow> [''local-file''] | Some ps \<Rightarrow> ps)"
    by blast
qed

theorem create_get_roundtrip_witness:
  "\<exists>t st'. create ex_tm_env ex_config ex_tm_empty = Inr (t, st')
     \<and> get (t_id t) st' = Some t
     \<and> pb_tone (pbrand ex_config) = Some ''dry'' \<and> b_tone (t_brand t) = ''dry''
     \<and> pb_voice (pbrand ex_config) \<in> {None, Some []}
     \<and> b_voice (t_brand t) = ''professional yet approachable''
     \<and> b_keywords (t_brand t) = []
     \<and> s_platforms (t_settings t) = [''local-file'']"
proof -
  from create_ex_config obtain t st' where
    c: "create ex_tm_env ex_config ex_tm_empty = Inr (t, st')" by blast
  have p: "pb_tone (pbrand ex_config) = Some ''dry''"
    "pb_voice (pbrand ex_config) \<in> {None, Some []}"
    "pb_keywords (pbrand ex_config) = Some []" "pt_platforms (psettings ex_config) = None"
    by (simp_all add: ex_config_def ex_brand_def pbrand_def psettings_def)
  from create_get_roundtrip [of ex_tm_env ex_config ex_tm_empty t st'] c p
  have "get (t_id t) st' = Some t \<and> b_tone (t_brand t) = ''dry''
      \<and> b_voice (t_brand t) = ''professional yet approachable''
      \<and> b_keywords (t_brand t) = []
      \<and> s_platforms (t_settings t) = [''local-file'']"
    by auto
  with c p show ?thesis by blast
qed

text \<open>
  The claim as stated fails for a brand voice supplied as the empty string: it is not
  kept, the tenant gets the default voice.
\<close>

theorem create_empty_voice_counterexample:
  "pb_voice (pbrand ex_config) = Some []
   \<and> map_sum id fst (create ex_tm_env ex_config ex_tm_empty) = Inr ex_created
   \<and> map_sum id (\<lambda>(t, st'). get (t_id t) st') (create ex_tm_env ex_config ex_tm_empty)
       = Inr (Some ex_created)
   \<and> b_voice (t_brand ex_created) = ''professional yet approachable''"
  by (simp add: create_def store_guard_def ex_tm_env_def ex_tm_empty_def ex_config_def ex_brand_def
      ex_created_def initTenantResources_def Let_def new_tenant_def pbrand_def psettings_def
      str_or_def arr_or_def ov_def get_def slugify_acme)

section \<open>Tenant registry: brand guidelines\<close>

lemma slice_last_Nil_iff: "0 < n \<Longrightarrow> slice_last n xs = [] \<longleftrightarrow> xs = []"
  by (cases xs) (auto simp: slice_last_def)

lemma brand_lines_nonempty: "brand_lines t \<noteq> []"
  by (simp add: brand_lines_def)

text \<open>
  Claim C6, as amended. \<open>getBrandGuidelines\<close> returns the empty string for an unknown
  tenant. For a known tenant it returns a non-empty document of lines: a heading with the
  tenant's name, an empty line, one line each for the voice, the tone, the audience and the
  industry of the brand, a line of the keywords and a line of the words to avoid when
  there are any, and, when the tenant's store has entries written by \<open>brand-manager\<close>, an
  empty line, the heading of the learned preferences and one line with the key and the
  value of each of the last ten such entries, in the order of the store, all of them when
  there are fewer.
\<close>

theorem brand_guidelines:
  "(get ident st = None \<longrightarrow> getBrandGuidelines ident st = [])
   \<and> (get ident st = Some t \<longrightarrow>
        (\<exists>written ls.
           written = (case getMemory ident st of
                        None \<Rightarrow> []
                      | Some mem \<Rightarrow> filter (\<lambda>e. e_agent e = ''brand-manager'') mem)
           \<and> ls = drop (length written - 10) written
           \<and> length ls \<le> 10
           \<and> getBrandGuidelines ident st \<noteq> []
           \<and> getBrandGuidelines ident st =
               lines_text
                 ([''## Brand Writing Guidelines '' @ em_dash @ '' '' @ t_name t, [],
                   ''**Voice:** '' @ b_voice (t_brand t),
                   ''**Tone:** '' @ b_tone (t_brand t),
                   ''**Target Audience:** '' @ b_audience (t_brand t),
                   ''**Industry:** '' @ b_industry (t_brand t)]
                  @ (if b_keywords (t_brand t) = [] then []
                     else [''**Include keywords:** '' @ join '', '' (b_keywords (t_brand t))])
                  @ (if b_avoidWords (t_brand t) = [] then []
                     else [''**NEVER use:** '' @ join '', '' (b_avoidWords (t_brand t))])
                  @ (if ls = [] then []
                     else [[], ''**Learned preferences:**'']
                          @ map (\<lambda>l. ''- '' @ e_key l @ '': ''
                                     @ (case e_value l of
                                          VStr s \<Rightarrow> s
                                        | _ \<Rightarrow> ''[object Object]'')) ls))))"
proof (rule conjI; rule impI)
  assume "get ident st = None"
  then show "getBrandGuidelines ident st = []"
    by (simp add: getBrandGuidelines_def get_def)
next
  assume g: "get ident st = Some t"
  let ?all = "case getMemory ident st of None \<Rightarrow> [] | Some mem \<Rightarrow> byAgent ''brand-manager'' mem"
  let ?ls = "slice_last 10 ?all"
  let ?line = "\<lambda>l. ''- '' @ e_key l @ '': ''
      @ (case e_value l of VStr s \<Rightarrow> s | _ \<Rightarrow> ''[object Object]'')"
  have ll: "learned_lines xs = lines_text (map ?line xs)" for xs
    by (induction xs) (auto simp: learned_lines_def lines_text_def value_text_def
        split: b_value.splits)
  have e: "getBrandGuidelines ident st
             = brand_lines t
               @ (if ?ls = [] then []
                  else nl @ ''**Learned preferences:**'' @ nl @ learned_lines ?ls)"
    using g by (simp add: getBrandGuidelines_def get_def getMemory_def Let_def
        slice_last_Nil_iff split: option.splits)
  have b: "brand_lines t =
      lines_text
        ([''## Brand Writing Guidelines '' @ em_dash @ '' '' @ t_name t, [],
          ''**Voice:** '' @ b_voice (t_brand t),
          ''**Tone:** '' @ b_tone (t_brand t),
          ''**Target Audience:** '' @ b_audience (t_brand t),
          ''**Industry:** '' @ b_industry (t_brand t)]
         @ (if b_keywords (t_brand t) = [] then []
            else [''**Include keywords:** '' @ join '', '' (b_keywords (t_brand t))])
         @ (if b_avoidWords (t_brand t) = [] then []
            else [''**NEVER use:** '' @ join '', '' (b_avoidWords (t_brand t))]))"
    by (simp add: brand_lines_def lines_text_def)
  have la: "lines_text (xs @ ys) = lines_text xs @ lines_text ys" for xs ys
    by (simp add: lines_text_def)
  have f: "getBrandGuidelines ident st =
               lines_text
                 ([''## Brand Writing Guidelines '' @ em_dash @ '' '' @ t_name t, [],
                   ''**Voice:** '' @ b_voice (t_brand t),
                   ''**Tone:** '' @ b_tone (t_brand t),
                   ''**Target Audience:** '' @ b_audience (t_brand t),
                   ''**Industry:** '' @ b_industry (t_brand t)]
                  @ (if b_keywords (t_brand t) = [] then []
                     else [''**Include keywords:** '' @ join '', '' (b_keywords (t_brand t))])
                  @ (if b_avoidWords (t_brand t) = [] then []
                     else [''**NEVER use:** '' @ join '', '' (b_avoidWords (t_brand t))])
                  @ (if ?ls = [] then []
                     else [[], ''**Learned preferences:**''] @ map ?line ?ls))"
  proof (cases "?ls = []")
    case True
    then show ?thesis using e b by simp
  next
    case False
    have "nl @ ''**Learned preferences:**'' @ nl @ learned_lines ?ls
          = lines_text ([[], ''**Learned preferences:**''] @ map ?line ?ls)"
      by (simp add: ll lines_text_def)
    with False e b show ?thesis
      by (simp only: if_False la [symmetric] append_assoc)
  qed
  have l: "length ?ls \<le> 10"
    by (simp add: slice_last_def)
  have n: "getBrandGuidelines ident st \<noteq> []"
    by (simp add: e brand_lines_nonempty)
  have w: "?all = (case getMemory ident st of
                     None \<Rightarrow> []
                   | Some mem \<Rightarrow> filter (\<lambda>e. e_agent e = ''brand-manager'') mem)"
    by (simp add: byAgent_def split: option.splits)
  have d: "?ls = drop (length ?all - 10) ?all"
    by (simp add: slice_last_def)
  from f l n w d show "\<exists>written ls.
           written = (case getMemory ident st of
                        None \<Rightarrow> []
                      | Some mem \<Rightarrow> filter (\<lambda>e. e_agent e = ''brand-manager'') mem)
           \<and> ls = drop (length written - 10) written
           \<and> length ls \<le> 10
           \<and> getBrandGuidelines ident st \<noteq> []
           \<and> getBrandGuidelines ident st =
               lines_text
                 ([''## Brand Writing Guidelines '' @ em_dash @ '' '' @ t_name t, [],
                   ''**Voice:** '' @ b_voice (t_brand t),
                   ''**Tone:** '' @ b_tone (t_brand t),
                   ''**Target Audience:** '' @ b_audience (t_brand t),
                   ''**Industry:** '' @ b_industry (t_brand t)]
                  @ (if b_keywords (t_brand t) = [] then []
                     else [''**Include keywords:** '' @ join '', '' (b_keywords (t_brand t))])
                  @ (if b_avoidWords (t_brand t) = [] then []
                     else [''**NEVER use:** '' @ join '', '' (b_avoidWords (t_brand t))])
                  @ (if ls = [] then []
                     else [[], ''**Learned preferences:**''] @ map ?line ls))"
    by (metis (lifting))
qed

theorem brand_guidelines_witness:
  "get ''nobody'' ex_tm_state = None \<and> getBrandGuidelines ''nobody'' ex_tm_state = []
   \<and> get ''t1'' ex_tm_state = Some ex_tenant
   \<and> getBrandGuidelines ''t1'' ex_tm_state =
       lines_text
         [''## Brand Writing Guidelines '' @ em_dash @ '' Acme'', [],
          ''**Voice:** professional yet approachable'',
          ''**Tone:** authoritative but friendly'',
          ''**Target Audience:** general'',
          ''**Industry:** technology'',
          ''**Include keywords:** ai'',
          [], ''**Learned preferences:**'',
          ''- brand_voice: professional yet approachable'']"
proof -
  have g0: "get ''nobody'' ex_tm_state = None" and g1: "get ''t1'' ex_tm_state = Some ex_tenant"
    by (simp_all add: get_def ex_tm_state_def)
  have m: "(let written = (case getMemory ''t1'' ex_tm_state of None \<Rightarrow> []
                          | Some mem \<Rightarrow> filter (\<lambda>e. e_agent e = ''brand-manager'') mem)
            in drop (length written - 10) written)
           = [\<lparr>e_key = ''brand_voice'', e_value = VStr ''professional yet approachable'',
               e_agent = ''brand-manager'', e_tags = [''brand''],
               e_updatedAt = ''2023-12-01T00:00:00.000Z''\<rparr>]"
    by (simp add: getMemory_def ex_tm_state_def Let_def)
  from brand_guidelines [of "''nobody''" ex_tm_state ex_tenant] g0
  have a: "getBrandGuidelines ''nobody'' ex_tm_state = []" by blast
  from brand_guidelines [of "''t1''" ex_tm_state ex_tenant] g1
  obtain written ls where
    w: "written = (case getMemory ''t1'' ex_tm_state of None \<Rightarrow> []
                          | Some mem \<Rightarrow> filter (\<lambda>e. e_agent e = ''brand-manager'') mem)"
    and l: "ls = drop (length written - 10) written"
    and d: "getBrandGuidelines ''t1'' ex_tm_state =
               lines_text
                 ([''## Brand Writing Guidelines '' @ em_dash @ '' '' @ t_name ex_tenant, [],
                   ''**Voice:** '' @ b_voice (t_brand ex_tenant),
                   ''**Tone:** '' @ b_tone (t_brand ex_tenant),
                   ''**Target Audience:** '' @ b_audience (t_brand ex_tenant),
                   ''**Industry:** '' @ b_industry (t_brand ex_tenant)]
                  @ (if b_keywords (t_brand ex_tenant) = [] then []
                     else [''**Include keywords:** '' @ join '', '' (b_keywords (t_brand ex_tenant))])
                  @ (if b_avoidWords (t_brand ex_tenant) = [] then []
                     else [''**NEVER use:** '' @ join '', '' (b_avoidWords (t_brand ex_tenant))])
                  @ (if ls = [] then []
                     else [[], ''**Learned preferences:**'']
                          @ map (\<lambda>l. ''- '' @ e_key l @ '': ''
                                     @ (case e_value l of
                                          VStr s \<Rightarrow> s
                                        | _ \<Rightarrow> ''[object Object]'')) ls))"
    by blast
  have b: "getBrandGuidelines ''t1'' ex_tm_state =
       lines_text
         [''## Brand Writing Guidelines '' @ em_dash @ '' Acme'', [],
          ''**Voice:** professional yet approachable'',
          ''**Tone:** authoritative but friendly'',
          ''**Target Audience:** general'',
          ''**Industry:** technology'',
          ''**Include keywords:** ai'',
          [], ''**Learned preferences:**'',
          ''- brand_voice: professional yet approachable'']"
    using m unfolding d l w by (simp add: ex_tenant_def join_def Let_def)
  from g0 g1 a b show ?thesis by blast
qed

lemma ex_learn_store_eval:
  "ex_learn_store =
     \<lparr>e_key = ''k01'', e_value = VStr ''k01'', e_agent = ''brand-manager'',
       e_tags = [''brand''], e_updatedAt = ''12''\<rparr>
     # map (\<lambda>(k, now). \<lparr>e_key = k, e_value = VStr k, e_agent = ''brand-manager'',
                          e_tags = [''brand''], e_updatedAt = now\<rparr>)
         [(''k02'', ''02''), (''k03'', ''03''), (''k04'', ''04''), (''k05'', ''05''),
          (''k06'', ''06''), (''k07'', ''07''), (''k08'', ''08''), (''k09'', ''09''),
          (''k10'', ''10''), (''k11'', ''11'')]"
  by (simp add: ex_learn_store_def ex_writes_def)

text \<open>
  The claim as stated fails where the order of the store is not the order of the writes:
  after eleven writes of the brand manager under eleven keys and a twelfth under the first
  key again, the entry written last (\<open>k01\<close>, at time \<open>12\<close>) stands first in the store
  and is the one that the document leaves out.
\<close>

theorem guidelines_leave_out_latest_counterexample:
  "map e_key ex_learn_store =
     [''k01'', ''k02'', ''k03'', ''k04'', ''k05'', ''k06'',
      ''k07'', ''k08'', ''k09'', ''k10'', ''k11'']
   \<and> map e_agent ex_learn_store =
     [''brand-manager'', ''brand-manager'', ''brand-manager'', ''brand-manager'',
      ''brand-manager'', ''brand-manager'', ''brand-manager'', ''brand-manager'',
      ''brand-manager'', ''brand-manager'', ''brand-manager'']
   \<and> map e_updatedAt ex_learn_store =
     [''12'', ''02'', ''03'', ''04'', ''05'', ''06'', ''07'', ''08'', ''09'', ''10'', ''11'']
   \<and> getBrandGuidelines ''t1'' ex_learn_state =
       lines_text
         [''## Brand Writing Guidelines '' @ em_dash @ '' Acme'', [],
          ''**Voice:** professional yet approachable'',
          ''**Tone:** authoritative but friendly'',
          ''**Target Audience:** general'',
          ''**Industry:** technology'',
          ''**Include keywords:** ai'',
          [], ''**Learned preferences:**'',
          ''- k02: k02'',
          ''- k03: k03'',
          ''- k04: k04'',
          ''- k05: k05'',
          ''- k06: k06'',
          ''- k07: k07'',
          ''- k08: k08'',
          ''- k09: k09'',
          ''- k10: k10'',
          ''- k11: k11'']"
proof -
  have a: "map e_key ex_learn_store =
     [''k01'', ''k02'', ''k03'', ''k04'', ''k05'', ''k06'',
      ''k07'', ''k08'', ''k09'', ''k10'', ''k11'']"
    and b: "map e_agent ex_learn_store =
     [''brand-manager'', ''brand-manager'', ''brand-manager'', ''brand-manager'',
      ''brand-manager'', ''brand-manager'', ''brand-manager'', ''brand-manager'',
      ''brand-manager'', ''brand-manager'', ''brand-manager'']"
    and c: "map e_updatedAt ex_learn_store =
     [''12'', ''02'', ''03'', ''04'', ''05'', ''06'', ''07'', ''08'', ''09'', ''10'', ''11'']"
    by (simp_all add: ex_learn_store_eval)
  have d: "getBrandGuidelines ''t1'' ex_learn_state =
       lines_text
         [''## Brand Writing Guidelines '' @ em_dash @ '' Acme'', [],
          ''**Voice:** professional yet approachable'',
          ''**Tone:** authoritative but friendly'',
          ''**Target Audience:** general'',
          ''**Industry:** technology'',
          ''**Include keywords:** ai'',
          [], ''**Learned preferences:**'',
          ''- k02: k02'',
          ''- k03: k03'',
          ''- k04: k04'',
          ''- k05: k05'',
          ''- k06: k06'',
          ''- k07: k07'',
          ''- k08: k08'',
          ''- k09: k09'',
          ''- k10: k10'',
          ''- k11: k11'']"
    by (simp add: getBrandGuidelines_def ex_learn_state_def ex_learn_store_eval byAgent_def
        slice_last_def brand_lines_def learned_lines_def value_text_def lines_text_def
        ex_tenant_def join_def Let_def)
  from a b c d show ?thesis by blast
qed

section \<open>Tenant registry: updating credentials\<close>






lemma init_resources:
  "initTenantResources env t st = Inr st1 \<Longrightarrow>
     tenants st1 = tenants st \<and> dataDir st1 = dataDir st
     \<and> map_of (executors st1) (t_id t) = Some (build_executor (t_platforms t))
     \<and> map_of (memories st1) (t_id t) = mem_init env (path_join [dataDir st, t_id t, ''memory''])"
  by (auto simp: initTenantResources_def update_conv' split: option.splits if_splits)





end
